theory Spec2Isabelle
  imports Main "HOL-Library.Word"
begin

unbundle bit_operations_syntax

section \<open>Python values\<close>

text \<open>
  The scripts compute with Python's unbounded integers (\<^typ>\<open>int\<close>; \<open>&\<close>, \<open>|\<close>,
  \<open><<\<close> and \<open>>>\<close> are \<open>AND\<close>, \<open>OR\<close>, \<open>push_bit\<close> and \<open>drop_bit\<close>) and with
  \<open>bytes\<close> objects, whose elements are integers in \<open>range(256)\<close> (\<^typ>\<open>8 word\<close>).
  A function that returns \<open>None\<close> or a number returns an \<^typ>\<open>int option\<close>.
\<close>

type_synonym byte = "8 word"

text \<open>
  \<open>bytearray([...])\<close> raises \<open>ValueError\<close> when an element is outside \<open>range(256)\<close>;
  \<open>None\<close> stands for that exception.
\<close>

definition bytearray :: "int list \<Rightarrow> byte list option" where
  "bytearray xs =
     (if list_all (\<lambda>x. 0 \<le> x \<and> x < 256) xs then Some (map word_of_int xs) else None)"

section \<open>Statusword decoding (\<open>enhanced_unit_test_v6.py\<close>, \<open>diag2.py\<close>)\<close>

datatype drive_state =
    STATE_NOT_READY
  | STATE_SWITCH_ON_DISABLED
  | STATE_READY_TO_SWITCH_ON
  | STATE_SWITCHED_ON
  | STATE_OPERATION_ENABLED
  | STATE_FAULT
  | STATE_UNKNOWN

fun STATE_NAMES :: "drive_state \<Rightarrow> string" where
  "STATE_NAMES STATE_NOT_READY = ''Not Ready to Switch On''"
| "STATE_NAMES STATE_SWITCH_ON_DISABLED = ''Switch On Disabled''"
| "STATE_NAMES STATE_READY_TO_SWITCH_ON = ''Ready to Switch On''"
| "STATE_NAMES STATE_SWITCHED_ON = ''Switched On''"
| "STATE_NAMES STATE_OPERATION_ENABLED = ''Operation Enabled''"
| "STATE_NAMES STATE_FAULT = ''Fault''"
| "STATE_NAMES STATE_UNKNOWN = ''Unknown State''"

text \<open>
  The \<open>if\<close>/\<open>elif\<close> chain that sets the local \<open>state\<close> in \<open>decode_statusword\<close>
  (lines 229 to 243 of \<open>enhanced_unit_test_v6.py\<close>, 32 to 46 of \<open>diag2.py\<close>); the same chain
  is written out again at the start of \<open>go_through_state_machine\<close> of both files.
\<close>

definition decode_statusword_state :: "int \<Rightarrow> drive_state" where
  "decode_statusword_state statusword =
     (if statusword AND 0x004F = 0x0000 then STATE_NOT_READY
      else if statusword AND 0x004F = 0x0040 then STATE_SWITCH_ON_DISABLED
      else if statusword AND 0x006F = 0x0021 then STATE_READY_TO_SWITCH_ON
      else if statusword AND 0x006F = 0x0023 then STATE_SWITCHED_ON
      else if statusword AND 0x006F = 0x0027 then STATE_OPERATION_ENABLED
      else if statusword AND 0x004F = 0x0008 then STATE_FAULT
      else STATE_UNKNOWN)"

text \<open>The format specification \<open>04X\<close> of the f-strings: upper-case hexadecimal, zero-filled
  to four characters, the sign counted in the width.\<close>

definition hex_digit :: "nat \<Rightarrow> char" where
  "hex_digit d = ''0123456789ABCDEF'' ! d"

fun hex_digits :: "nat \<Rightarrow> string" where
  "hex_digits n =
     (if n < 16 then [hex_digit n] else hex_digits (n div 16) @ [hex_digit (n mod 16)])"

declare hex_digits.simps [simp del]

definition format_04X :: "int \<Rightarrow> string" where
  "format_04X x =
     (let sgn_part = (if x < 0 then ''-'' else '''');
          digits = hex_digits (nat \<bar>x\<bar>)
      in sgn_part @ replicate (4 - length sgn_part - length digits) CHR ''0'' @ digits)"

text \<open>\<open>decode_statusword\<close> itself returns the description string.\<close>

definition decode_statusword :: "int \<Rightarrow> string" where
  "decode_statusword statusword =
     (let state = decode_statusword_state statusword;
          description = STATE_NAMES state;
          result = ''State: '' @ description @ '' (0x'' @ format_04X statusword @ '')'';
          result = (if statusword AND 0x0080 \<noteq> 0 then result @ '', Warning'' else result);
          result = (if statusword AND 0x0400 \<noteq> 0 then result @ '', Target Reached'' else result);
          result = (if statusword AND 0x0200 \<noteq> 0 then result @ '', Remote (DI7=1)''
                    else result @ '', NOT Remote (DI7=0) - ENABLE IS OFF!'');
          result = (if statusword AND 0x0800 \<noteq> 0 then result @ '', Internal Limit Active''
                    else result)
      in result)"

text \<open>
  The classification rule as the specification words it, section 4.3: the same six mask
  equations, tested in the specification's priority order, the first match winning.
\<close>

definition classify_spec_priority :: "int \<Rightarrow> drive_state" where
  "classify_spec_priority s =
     (if s AND 0x004F = 0x0008 then STATE_FAULT
      else if s AND 0x006F = 0x0027 then STATE_OPERATION_ENABLED
      else if s AND 0x006F = 0x0023 then STATE_SWITCHED_ON
      else if s AND 0x006F = 0x0021 then STATE_READY_TO_SWITCH_ON
      else if s AND 0x004F = 0x0040 then STATE_SWITCH_ON_DISABLED
      else if s AND 0x004F = 0x0000 then STATE_NOT_READY
      else STATE_UNKNOWN)"

text \<open>The six mask equations of the classification, as a list of truth values.\<close>

definition mask_equations :: "int \<Rightarrow> bool list" where
  "mask_equations s =
     [s AND 0x004F = 0x0000, s AND 0x004F = 0x0040, s AND 0x006F = 0x0021,
      s AND 0x006F = 0x0023, s AND 0x006F = 0x0027, s AND 0x004F = 0x0008]"

section \<open>The socket\<close>

text \<open>
  Every network function of the scripts performs the same exchange on a connected socket:
  \<open>sock.send(packet)\<close> followed by \<open>response = sock.recv(n)\<close>. What the peer does is
  given from outside as a script, the outcome of each successive exchange: \<open>send\<close> raises
  (nothing is sent, \<open>recv\<close> is not reached), \<open>recv\<close> raises (a timeout, say), or \<open>recv\<close>
  returns a \<open>bytes\<close> object. The socket records the number of exchanges made and the
  packets that were passed to \<open>send\<close> successfully, oldest first. The calls of
  \<open>time.sleep\<close> between the exchanges only delay and are left out.
\<close>

datatype exchange = SendRaises | RecvRaises | Recv "byte list"

record sock =
  script :: "nat \<Rightarrow> exchange"
  calls :: nat
  sent :: "byte list list"

text \<open>\<open>None\<close>: an exception was raised by \<open>send\<close> or \<open>recv\<close>.\<close>

definition transact :: "sock \<Rightarrow> byte list \<Rightarrow> byte list option \<times> sock" where
  "transact s packet =
     (case script s (calls s) of
        SendRaises \<Rightarrow> (None, s\<lparr>calls := Suc (calls s)\<rparr>)
      | RecvRaises \<Rightarrow> (None, s\<lparr>calls := Suc (calls s), sent := sent s @ [packet]\<rparr>)
      | Recv response \<Rightarrow>
          (Some response, s\<lparr>calls := Suc (calls s), sent := sent s @ [packet]\<rparr>))"

text \<open>A mocked peer: the listed outcomes in turn, and \<open>d\<close> for every later exchange.\<close>

definition feed :: "exchange list \<Rightarrow> exchange \<Rightarrow> nat \<Rightarrow> exchange" where
  "feed xs d n = (if n < length xs then xs ! n else d)"

definition mock :: "exchange list \<Rightarrow> exchange \<Rightarrow> sock" where
  "mock xs d = \<lparr>script = feed xs d, calls = 0, sent = []\<rparr>"

section \<open>\<open>diag.py\<close> (and, without the logging, \<open>unit_test2.py\<close>)\<close>

text \<open>
  \<open>read_statusword\<close>, \<open>write_controlword\<close> and \<open>write_object\<close> of \<open>unit_test2.py\<close> are
  those of \<open>diag.py\<close> without the \<open>print\<close> calls on the packets. Printing changes neither
  the results nor the traffic and is left out. In each function the whole body is inside
  \<open>try\<close>/\<open>except Exception\<close>.
\<close>

definition read_statusword_diag :: "sock \<Rightarrow> int option \<times> sock" where
  "read_statusword_diag sock =
     (case bytearray [0x00, 0x0F, 0x00, 0x00, 0x00, 0x0D, 0x00, 0x2B, 0x0D, 0x00, 0x00, 0x00,
                      0x60, 0x41, 0x00, 0x00, 0x00, 0x00, 0x02] of
        None \<Rightarrow> (None, sock)
      | Some packet \<Rightarrow>
          (case transact sock packet of
             (None, sock') \<Rightarrow> (None, sock')
           | (Some response, sock') \<Rightarrow>
               (if length response \<ge> 21
                then (Some (uint (response ! 19) OR push_bit 8 (uint (response ! 20))), sock')
                else (None, sock'))))"

definition write_controlword_diag :: "sock \<Rightarrow> int \<Rightarrow> bool \<times> sock" where
  "write_controlword_diag sock val =
     (case bytearray [0x00, 0x0F, 0x00, 0x00, 0x00, 0x0F, 0x00, 0x2B, 0x0D, 0x01, 0x00, 0x00,
                      0x60, 0x40, 0x00, 0x00, 0x00, 0x00, 0x02,
                      val AND 0xFF, drop_bit 8 val AND 0xFF] of
        None \<Rightarrow> (False, sock)
      | Some packet \<Rightarrow>
          (case transact sock packet of
             (None, sock') \<Rightarrow> (False, sock')
           | (Some response, sock') \<Rightarrow> (True, sock')))"

text \<open>The loop \<open>for i in range(size): value_bytes.append((value >> (8*i)) & 0xFF)\<close>.\<close>

definition value_bytes :: "int \<Rightarrow> int \<Rightarrow> int list" where
  "value_bytes val sz = map (\<lambda>i. drop_bit (8 * i) val AND 0xFF) [0..<nat sz]"

definition write_object_diag :: "sock \<Rightarrow> int \<Rightarrow> int \<Rightarrow> int \<Rightarrow> int \<Rightarrow> bool \<times> sock" where
  "write_object_diag sock index sub_index val sz =
     (case bytearray [0x00, 0x0F, 0x00, 0x00, 0x00, 0x0D + sz, 0x00, 0x2B, 0x0D, 0x01, 0x00,
                      0x00, drop_bit 8 index AND 0xFF, index AND 0xFF, sub_index,
                      0x00, 0x00, 0x00, sz] of
        None \<Rightarrow> (False, sock)
      | Some packet \<Rightarrow>
          (case bytearray (value_bytes val sz) of
             None \<Rightarrow> (False, sock)
           | Some vbytes \<Rightarrow>
               (case transact sock (packet @ vbytes) of
                  (None, sock') \<Rightarrow> (False, sock')
                | (Some response, sock') \<Rightarrow> (True, sock'))))"

text \<open>
  \<open>go_through_state_machine\<close> of \<open>diag.py\<close>: the results of the writes and of the first
  two reads after them are not looked at.
\<close>

definition go_through_state_machine_diag :: "sock \<Rightarrow> bool \<times> sock" where
  "go_through_state_machine_diag sock =
     (case read_statusword_diag sock of
        (None, s0) \<Rightarrow> (False, s0)
      | (Some status0, s0) \<Rightarrow>
          (let (w1, s1) = write_controlword_diag s0 0x0006;
               (status1, s2) = read_statusword_diag s1;
               (w2, s3) = write_controlword_diag s2 0x0007;
               (status2, s4) = read_statusword_diag s3;
               (w3, s5) = write_controlword_diag s4 0x000F;
               (status3, s6) = read_statusword_diag s5
           in (case status3 of
                 None \<Rightarrow> (False, s6)
               | Some status \<Rightarrow> (status AND 0x0627 = 0x0627, s6))))"

section \<open>\<open>enhanced_unit_test_v6.py\<close>\<close>

text \<open>
  \<open>print_packet\<close>, \<open>interpret_controlword\<close> and the other logging of this file raise no
  exception on the packets and numbers they are given here and are left out.
  \<open>read_statusword\<close> has one more length test than that of \<open>diag.py\<close>;
  \<open>write_controlword\<close> is that of \<open>diag.py\<close> with logging.
\<close>

definition read_statusword_v6 :: "sock \<Rightarrow> int option \<times> sock" where
  "read_statusword_v6 sock =
     (case bytearray [0x00, 0x0F, 0x00, 0x00, 0x00, 0x0D, 0x00, 0x2B, 0x0D, 0x00, 0x00, 0x00,
                      0x60, 0x41, 0x00, 0x00, 0x00, 0x00, 0x02] of
        None \<Rightarrow> (None, sock)
      | Some packet \<Rightarrow>
          (case transact sock packet of
             (None, sock') \<Rightarrow> (None, sock')
           | (Some response, sock') \<Rightarrow>
               (if length response < 18 then (None, sock')
                else if length response \<ge> 21
                then (Some (uint (response ! 19) OR push_bit 8 (uint (response ! 20))), sock')
                else (None, sock'))))"

definition write_controlword_v6 :: "sock \<Rightarrow> int \<Rightarrow> bool \<times> sock" where
  "write_controlword_v6 sock val = write_controlword_diag sock val"

text \<open>
  \<open>write_object\<close>: \<open>response[7]\<close> raises \<open>IndexError\<close> on a response of fewer than eight
  bytes, which the \<open>except\<close> clause turns into \<open>False\<close>.
\<close>

definition write_object_v6 :: "sock \<Rightarrow> int \<Rightarrow> int \<Rightarrow> int \<Rightarrow> int \<Rightarrow> bool \<times> sock" where
  "write_object_v6 sock index sub_index val sz =
     (case bytearray [0x00, 0x0F, 0x00, 0x00, 0x00, 0x0D + sz, 0x00, 0x2B, 0x0D, 0x01, 0x00,
                      0x00, drop_bit 8 index AND 0xFF, index AND 0xFF, sub_index,
                      0x00, 0x00, 0x00, sz] of
        None \<Rightarrow> (False, sock)
      | Some packet \<Rightarrow>
          (case bytearray (value_bytes val sz) of
             None \<Rightarrow> (False, sock)
           | Some vbytes \<Rightarrow>
               (case transact sock (packet @ vbytes) of
                  (None, sock') \<Rightarrow> (False, sock')
                | (Some response, sock') \<Rightarrow>
                    (if length response \<le> 7 then (False, sock')
                     else if uint (response ! 7) AND 0x80 \<noteq> 0 then (False, sock')
                     else (True, sock')))))"

text \<open>The loop \<open>for i in range(size): value |= response[19 + i] << (8 * i)\<close>.\<close>

definition payload_value :: "byte list \<Rightarrow> int \<Rightarrow> int" where
  "payload_value response sz =
     foldl (\<lambda>v i. v OR push_bit (8 * i) (uint (response ! (19 + i)))) 0 [0..<nat sz]"

definition read_object_v6 :: "sock \<Rightarrow> int \<Rightarrow> int \<Rightarrow> int \<Rightarrow> int option \<times> sock" where
  "read_object_v6 sock index sub_index sz =
     (case bytearray [0x00, 0x0F, 0x00, 0x00, 0x00, 0x0D, 0x00, 0x2B, 0x0D, 0x00, 0x00, 0x00,
                      drop_bit 8 index AND 0xFF, index AND 0xFF, sub_index,
                      0x00, 0x00, 0x00, sz] of
        None \<Rightarrow> (None, sock)
      | Some packet \<Rightarrow>
          (case transact sock packet of
             (None, sock') \<Rightarrow> (None, sock')
           | (Some response, sock') \<Rightarrow>
               (if int (length response) \<ge> 19 + sz
                then (Some (payload_value response sz), sock')
                else (None, sock'))))"

text \<open>
  \<open>go_through_state_machine\<close> has no \<open>try\<close>: after the first read, a statusword read that
  returns \<open>None\<close> makes \<open>status & mask\<close> raise \<open>TypeError\<close>, which leaves the function.
  Each \<open>if state == ...:\<close> block of the function either returns, raises, or goes on to
  the next block with the local \<open>state\<close>.
\<close>

datatype py_exception = TypeError | OSError | StructError | NameError

datatype flow = Continue drive_state | Return bool | Raise py_exception

text \<open>The test \<open>(status & mask) == pattern\<close> on a status that may be \<open>None\<close>.\<close>

definition status_is :: "int option \<Rightarrow> int \<Rightarrow> int \<Rightarrow> py_exception + bool" where
  "status_is status m pattern =
     (case status of None \<Rightarrow> Inl TypeError | Some st \<Rightarrow> Inr (st AND m = pattern))"

definition next_block :: "flow \<times> sock \<Rightarrow> (drive_state \<Rightarrow> sock \<Rightarrow> flow \<times> sock) \<Rightarrow> flow \<times> sock" where
  "next_block r block = (case r of (Continue state, sock) \<Rightarrow> block state sock | _ \<Rightarrow> r)"

definition fault_block_v6 :: "drive_state \<Rightarrow> sock \<Rightarrow> flow \<times> sock" where
  "fault_block_v6 state sock =
     (if state = STATE_FAULT then
        (let (w, s1) = write_controlword_v6 sock 0x0080;
             (status, s2) = read_statusword_v6 s1
         in (case status_is status 0x004F 0x0040 of
               Inl e \<Rightarrow> (Raise e, s2)
             | Inr True \<Rightarrow> (Continue STATE_SWITCH_ON_DISABLED, s2)
             | Inr False \<Rightarrow> (Return False, s2)))
      else (Continue state, sock))"

text \<open>The loop \<open>for _ in range(5)\<close> of the not-ready block, by the rounds left.\<close>

fun wait_ready_v6 :: "nat \<Rightarrow> sock \<Rightarrow> flow \<times> sock" where
  "wait_ready_v6 0 sock = (Continue STATE_NOT_READY, sock)"
| "wait_ready_v6 (Suc n) sock =
     (let (status, s1) = read_statusword_v6 sock
      in (case status_is status 0x004F 0x0040 of
            Inl e \<Rightarrow> (Raise e, s1)
          | Inr True \<Rightarrow> (Continue STATE_SWITCH_ON_DISABLED, s1)
          | Inr False \<Rightarrow> wait_ready_v6 n s1))"

definition not_ready_block_v6 :: "drive_state \<Rightarrow> sock \<Rightarrow> flow \<times> sock" where
  "not_ready_block_v6 state sock =
     (if state = STATE_NOT_READY then
        (case wait_ready_v6 5 sock of
           (Continue state', s1) \<Rightarrow>
             (if state' = STATE_NOT_READY then (Return False, s1) else (Continue state', s1))
         | r \<Rightarrow> r)
      else (Continue state, sock))"

text \<open>
  The three transition blocks have one shape: in state \<open>src\<close>, write the controlword, read
  the statusword once, and go on in state \<open>dst\<close> if \<open>(status & 0x006F) == pattern\<close>,
  else return \<open>False\<close>.
\<close>

definition transition_block_v6 ::
  "drive_state \<Rightarrow> int \<Rightarrow> int \<Rightarrow> drive_state \<Rightarrow> drive_state \<Rightarrow> sock \<Rightarrow> flow \<times> sock" where
  "transition_block_v6 src controlword pattern dst state sock =
     (if state = src then
        (let (w, s1) = write_controlword_v6 sock controlword;
             (status, s2) = read_statusword_v6 s1
         in (case status_is status 0x006F pattern of
               Inl e \<Rightarrow> (Raise e, s2)
             | Inr True \<Rightarrow> (Continue dst, s2)
             | Inr False \<Rightarrow> (Return False, s2)))
      else (Continue state, sock))"

definition shutdown_block_v6 :: "drive_state \<Rightarrow> sock \<Rightarrow> flow \<times> sock" where
  "shutdown_block_v6 =
     transition_block_v6 STATE_SWITCH_ON_DISABLED 0x0006 0x0021 STATE_READY_TO_SWITCH_ON"

definition switch_on_block_v6 :: "drive_state \<Rightarrow> sock \<Rightarrow> flow \<times> sock" where
  "switch_on_block_v6 =
     transition_block_v6 STATE_READY_TO_SWITCH_ON 0x0007 0x0023 STATE_SWITCHED_ON"

definition enable_block_v6 :: "drive_state \<Rightarrow> sock \<Rightarrow> flow \<times> sock" where
  "enable_block_v6 =
     transition_block_v6 STATE_SWITCHED_ON 0x000F 0x0027 STATE_OPERATION_ENABLED"

definition go_through_state_machine_v6 :: "sock \<Rightarrow> (py_exception + bool) \<times> sock" where
  "go_through_state_machine_v6 sock =
     (case read_statusword_v6 sock of
        (None, s0) \<Rightarrow> (Inr False, s0)
      | (Some status, s0) \<Rightarrow>
          (case next_block (next_block (next_block (next_block
                  (fault_block_v6 (decode_statusword_state status) s0)
                  not_ready_block_v6) shutdown_block_v6) switch_on_block_v6) enable_block_v6 of
             (Continue state, s) \<Rightarrow> (Inr (state = STATE_OPERATION_ENABLED), s)
           | (Return b, s) \<Rightarrow> (Inr b, s)
           | (Raise e, s) \<Rightarrow> (Inl e, s)))"

text \<open>
  Test fixtures: a well-formed gateway response to a statusword read carrying the
  statusword, as \<open>archive/main.py\<close> spells such responses out, and the controlword values
  of the controlword writes among the packets sent.
\<close>

definition statusword_response :: "int \<Rightarrow> byte list" where
  "statusword_response status =
     [0, 0, 0, 0, 0, 15, 0, 43, 13, 0, 0, 0, 96, 65, 0, 0, 0, 0, 2,
      word_of_int (status AND 0xFF), word_of_int (drop_bit 8 status AND 0xFF)]"

definition is_controlword_write :: "byte list \<Rightarrow> bool" where
  "is_controlword_write p \<longleftrightarrow>
     length p = 21 \<and> p ! 7 = 0x2B \<and> p ! 8 = 0x0D \<and> p ! 9 = 1 \<and> p ! 12 = 0x60 \<and> p ! 13 = 0x40
       \<and> p ! 14 = 0 \<and> p ! 18 = 2"

definition controlword_writes :: "byte list list \<Rightarrow> int list" where
  "controlword_writes packets =
     map (\<lambda>p. uint (p ! 19) OR push_bit 8 (uint (p ! 20))) (filter is_controlword_write packets)"

text \<open>
  The value of a byte string read as a little-endian number, the first byte the least
  significant; and an exception response of plain Modbus, nine bytes long.
\<close>

fun le_value :: "byte list \<Rightarrow> int" where
  "le_value [] = 0"
| "le_value (b # bs) = uint b + 256 * le_value bs"

definition modbus_exception_response :: "byte list" where
  "modbus_exception_response = [0x00, 0x0F, 0x00, 0x00, 0x00, 0x03, 0x00, 0xAB, 0x01]"

text \<open>
  For stating what a peer feeds: the statusword that the \<open>k\<close>-th next exchange delivers to
  a statusword read (at least 21 bytes, the statusword in bytes 19 and 20), if it delivers
  one; the request that every \<open>read_statusword\<close> sends and the packet that
  \<open>write_controlword\<close> sends; and an acknowledgement of a write.
\<close>

definition reads_status :: "sock \<Rightarrow> nat \<Rightarrow> int option" where
  "reads_status sock k =
     (case script sock (calls sock + k) of
        Recv r \<Rightarrow>
          (if 21 \<le> length r then Some (uint (r ! 19) OR push_bit 8 (uint (r ! 20))) else None)
      | _ \<Rightarrow> None)"

definition statusword_request :: "byte list" where
  "statusword_request =
     [0x00, 0x0F, 0x00, 0x00, 0x00, 0x0D, 0x00, 0x2B, 0x0D, 0x00, 0x00, 0x00,
      0x60, 0x41, 0x00, 0x00, 0x00, 0x00, 0x02]"

definition controlword_packet :: "int \<Rightarrow> byte list" where
  "controlword_packet val =
     [0x00, 0x0F, 0x00, 0x00, 0x00, 0x0F, 0x00, 0x2B, 0x0D, 0x01, 0x00, 0x00,
      0x60, 0x40, 0x00, 0x00, 0x00, 0x00, 0x02,
      word_of_int (val AND 0xFF), word_of_int (drop_bit 8 val AND 0xFF)]"

definition write_ack :: "byte list" where
  "write_ack = [0, 0, 0, 0, 0, 13, 0, 43, 13, 1, 0, 0, 96, 64, 0, 0, 0, 0, 0]"

text \<open>
  The mocked axis of the end-to-end scenario: the first statusword read gives \<open>0x0040\<close>,
  each controlword write is acknowledged, and the reads after the writes give \<open>0x0021\<close>,
  \<open>0x0023\<close> and \<open>0x0027\<close>; and the same axis with another last statusword. Two
  peers that do not advance: one that answers every exchange with statusword \<open>0x0040\<close>,
  and one that reaches \<open>0x0021\<close> and stays there.
\<close>

definition bring_up_peer :: sock where
  "bring_up_peer =
     mock [Recv (statusword_response 0x0040), Recv write_ack,
           Recv (statusword_response 0x0021), Recv write_ack,
           Recv (statusword_response 0x0023), Recv write_ack,
           Recv (statusword_response 0x0027)] RecvRaises"

definition bring_up_peer_to :: "int \<Rightarrow> sock" where
  "bring_up_peer_to final =
     mock [Recv (statusword_response 0x0040), Recv write_ack,
           Recv (statusword_response 0x0021), Recv write_ack,
           Recv (statusword_response 0x0023), Recv write_ack,
           Recv (statusword_response final)] RecvRaises"

definition disabled_peer :: sock where
  "disabled_peer = mock [] (Recv (statusword_response 0x0040))"

definition ready_peer :: sock where
  "ready_peer = mock [Recv (statusword_response 0x0040)] (Recv (statusword_response 0x0021))"

text \<open>
  The socket after an exchange whose \<open>send\<close> succeeded, and the condition that the \<open>send\<close>
  of the \<open>k\<close>-th next exchange succeeds.
\<close>

definition exchanged :: "sock \<Rightarrow> byte list \<Rightarrow> sock" where
  "exchanged s packet = s\<lparr>calls := Suc (calls s), sent := sent s @ [packet]\<rparr>"

definition send_ok :: "sock \<Rightarrow> nat \<Rightarrow> bool" where
  "send_ok sock k \<longleftrightarrow> script sock (calls sock + k) \<noteq> SendRaises"

section \<open>\<open>unit_test2.py\<close>: the movement tests\<close>

text \<open>
  \<open>test_simple_movement\<close> and \<open>test_both_axes_in_sync\<close> return nothing and look at no
  result of a write; what they do is the traffic on their sockets. The wait loops
  \<open>for _ in range(n)\<close> are recursions on the rounds left. In \<open>test_both_axes_in_sync\<close>
  both statuswords are read in every round, Y first, before the condition is tested.
\<close>

definition target_reached :: "int option \<Rightarrow> bool" where
  "target_reached status = (case status of None \<Rightarrow> False | Some st \<Rightarrow> st AND 0x0400 \<noteq> 0)"

fun wait_target_reached :: "nat \<Rightarrow> sock \<Rightarrow> sock" where
  "wait_target_reached 0 sock = sock"
| "wait_target_reached (Suc n) sock =
     (let (status, s1) = read_statusword_diag sock
      in if target_reached status then s1 else wait_target_reached n s1)"

definition test_simple_movement_ut2 :: "sock \<Rightarrow> sock" where
  "test_simple_movement_ut2 sock =
     (let (r1, s1) = write_object_diag sock 0x6060 0 1 1;
          (r2, s2) = write_object_diag s1 0x607A 0 100000 4;
          (r3, s3) = write_object_diag s2 0x6081 0 1000 4;
          (r4, s4) = write_object_diag s3 0x6083 0 2000 4;
          (r5, s5) = write_controlword_diag s4 0x001F;
          s6 = wait_target_reached 10 s5;
          (r7, s7) = write_controlword_diag s6 0x000F;
          (r8, s8) = write_object_diag s7 0x607A 0 0 4;
          (r9, s9) = write_controlword_diag s8 0x001F;
          s10 = wait_target_reached 10 s9;
          (r11, s11) = write_controlword_diag s10 0x000F
      in s11)"

text \<open>
  \<open>test_both_axes_in_sync\<close> works on the sockets of the two axes. So that the order of
  its packets across the two sockets can be told, its calls run on the pair of sockets
  together with one log for both: a call made on the socket of an axis adds the packets it
  sent there to the log, each with its axis.
\<close>

datatype axis = Y_axis | Z_axis

record axes =
  y_sock :: sock
  z_sock :: sock
  sent_order :: "(axis \<times> byte list) list"

definition call_on :: "axis \<Rightarrow> (sock \<Rightarrow> 'a \<times> sock) \<Rightarrow> axes \<Rightarrow> 'a \<times> axes" where
  "call_on a call w =
     (let sock = (case a of Y_axis \<Rightarrow> y_sock w | Z_axis \<Rightarrow> z_sock w);
          (result, sock') = call sock;
          packets = drop (length (sent sock)) (sent sock');
          w' = (case a of Y_axis \<Rightarrow> w\<lparr>y_sock := sock'\<rparr> | Z_axis \<Rightarrow> w\<lparr>z_sock := sock'\<rparr>)
      in (result, w'\<lparr>sent_order := sent_order w @ map (Pair a) packets\<rparr>))"

fun wait_both_reached :: "nat \<Rightarrow> axes \<Rightarrow> axes" where
  "wait_both_reached 0 w = w"
| "wait_both_reached (Suc n) w =
     (let (y_status, w1) = call_on Y_axis read_statusword_diag w;
          (z_status, w2) = call_on Z_axis read_statusword_diag w1
      in if target_reached y_status \<and> target_reached z_status then w2
         else wait_both_reached n w2)"

definition test_both_axes_in_sync :: "axes \<Rightarrow> axes" where
  "test_both_axes_in_sync w =
     (let (a1, w1) = call_on Y_axis (\<lambda>sock. write_object_diag sock 0x6060 0 1 1) w;
          (b1, w2) = call_on Z_axis (\<lambda>sock. write_object_diag sock 0x6060 0 1 1) w1;
          (a2, w3) = call_on Y_axis (\<lambda>sock. write_object_diag sock 0x607A 0 1000 4) w2;
          (b2, w4) = call_on Z_axis (\<lambda>sock. write_object_diag sock 0x607A 0 1000 4) w3;
          (a3, w5) = call_on Y_axis (\<lambda>sock. write_object_diag sock 0x6081 0 1000 4) w4;
          (b3, w6) = call_on Z_axis (\<lambda>sock. write_object_diag sock 0x6081 0 1000 4) w5;
          (a4, w7) = call_on Y_axis (\<lambda>sock. write_object_diag sock 0x6083 0 2000 4) w6;
          (b4, w8) = call_on Z_axis (\<lambda>sock. write_object_diag sock 0x6083 0 2000 4) w7;
          (a5, w9) = call_on Y_axis (\<lambda>sock. write_controlword_diag sock 0x001F) w8;
          (b5, w10) = call_on Z_axis (\<lambda>sock. write_controlword_diag sock 0x001F) w9;
          w11 = wait_both_reached 20 w10;
          (a7, w12) = call_on Y_axis (\<lambda>sock. write_controlword_diag sock 0x000F) w11;
          (b7, w13) = call_on Z_axis (\<lambda>sock. write_controlword_diag sock 0x000F) w12;
          (a8, w14) = call_on Y_axis (\<lambda>sock. write_object_diag sock 0x607A 0 0 4) w13;
          (b8, w15) = call_on Z_axis (\<lambda>sock. write_object_diag sock 0x607A 0 0 4) w14;
          (a9, w16) = call_on Y_axis (\<lambda>sock. write_controlword_diag sock 0x001F) w15;
          (b9, w17) = call_on Z_axis (\<lambda>sock. write_controlword_diag sock 0x001F) w16;
          w18 = wait_both_reached 20 w17;
          (a11, w19) = call_on Y_axis (\<lambda>sock. write_controlword_diag sock 0x000F) w18;
          (b11, w20) = call_on Z_axis (\<lambda>sock. write_controlword_diag sock 0x000F) w19
      in w20)"

text \<open>
  For stating the traffic: the packet that \<open>write_object\<close> sends; the number of rounds a
  loop \<open>for _ in range(n)\<close> makes when it is left in the first round whose test \<open>p\<close>
  holds; and the test of the synchronised wait on the statuswords that the \<open>k\<close>-th next
  exchanges of the two sockets deliver.
\<close>

definition object_write_packet :: "int \<Rightarrow> int \<Rightarrow> int \<Rightarrow> int \<Rightarrow> byte list" where
  "object_write_packet index sub_index val sz =
     map word_of_int
       ([0x00, 0x0F, 0x00, 0x00, 0x00, 0x0D + sz, 0x00, 0x2B, 0x0D, 0x01, 0x00,
         0x00, drop_bit 8 index AND 0xFF, index AND 0xFF, sub_index, 0x00, 0x00, 0x00, sz]
        @ value_bytes val sz)"

fun rounds :: "nat \<Rightarrow> (nat \<Rightarrow> bool) \<Rightarrow> nat" where
  "rounds 0 p = 0"
| "rounds (Suc n) p = (if p 0 then 1 else Suc (rounds n (\<lambda>j. p (Suc j))))"

definition both_reached :: "sock \<Rightarrow> sock \<Rightarrow> nat \<Rightarrow> bool" where
  "both_reached y z k \<longleftrightarrow>
     target_reached (reads_status y k) \<and> target_reached (reads_status z k)"

text \<open>Two mocked axes: one that always reports target reached, one that always reports a
  fault.\<close>

definition reached_peer :: sock where
  "reached_peer = mock [] (Recv (statusword_response 0x0427))"

definition fault_peer :: sock where
  "fault_peer = mock [] (Recv (statusword_response 0x0008))"

text \<open>The socket after a run of exchanges whose \<open>send\<close>s all succeeded.\<close>

definition exchanges :: "sock \<Rightarrow> byte list list \<Rightarrow> sock" where
  "exchanges s packets = s\<lparr>calls := calls s + length packets, sent := sent s @ packets\<rparr>"

text \<open>
  A hypothesis on the peer: no \<open>send\<close> of the socket ever raises. And the traffic of
  \<open>test_both_axes_in_sync\<close> on either socket when its waits make \<open>m\<close> and \<open>n\<close> rounds.
\<close>

definition sends_succeed :: "sock \<Rightarrow> bool" where
  "sends_succeed s \<longleftrightarrow> (\<forall>k. script s k \<noteq> SendRaises)"

definition sync_traffic :: "nat \<Rightarrow> nat \<Rightarrow> byte list list" where
  "sync_traffic m n =
     [object_write_packet 0x6060 0 1 1, object_write_packet 0x607A 0 1000 4,
      object_write_packet 0x6081 0 1000 4, object_write_packet 0x6083 0 2000 4,
      controlword_packet 0x001F]
     @ replicate m statusword_request
     @ [controlword_packet 0x000F, object_write_packet 0x607A 0 0 4, controlword_packet 0x001F]
     @ replicate n statusword_request
     @ [controlword_packet 0x000F]"

text \<open>
  The two sockets and their log after a run of exchanges in which every packet went to
  the Y axis first and to the Z axis next, all \<open>send\<close>s succeeding; and two pairs of
  mocked axes with an empty log: both report target reached, or Y reports target reached
  and Z a fault.
\<close>

definition exchanges_both :: "axes \<Rightarrow> byte list list \<Rightarrow> axes" where
  "exchanges_both w packets =
     w\<lparr>y_sock := exchanges (y_sock w) packets,
       z_sock := exchanges (z_sock w) packets,
       sent_order := sent_order w @ concat (map (\<lambda>p. [(Y_axis, p), (Z_axis, p)]) packets)\<rparr>"

definition reached_axes :: axes where
  "reached_axes = \<lparr>y_sock = reached_peer, z_sock = reached_peer, sent_order = []\<rparr>"

definition fault_axes :: axes where
  "fault_axes = \<lparr>y_sock = reached_peer, z_sock = fault_peer, sent_order = []\<rparr>"

text \<open>
  For stating the traffic of \<open>test_simple_movement\<close> when its waits make \<open>m\<close> and \<open>n\<close>
  rounds, and a mocked axis that stays in Operation Enabled without ever reporting target
  reached.
\<close>

definition simple_traffic :: "nat \<Rightarrow> nat \<Rightarrow> byte list list" where
  "simple_traffic m n =
     [object_write_packet 0x6060 0 1 1, object_write_packet 0x607A 0 100000 4,
      object_write_packet 0x6081 0 1000 4, object_write_packet 0x6083 0 2000 4,
      controlword_packet 0x001F]
     @ replicate m statusword_request
     @ [controlword_packet 0x000F, object_write_packet 0x607A 0 0 4, controlword_packet 0x001F]
     @ replicate n statusword_request
     @ [controlword_packet 0x000F]"

definition reached_at :: "sock \<Rightarrow> nat \<Rightarrow> bool" where
  "reached_at sock k = target_reached (reads_status sock k)"

definition enabled_peer :: sock where
  "enabled_peer = mock [] (Recv (statusword_response 0x0027))"

section \<open>\<open>archive/main.py\<close>\<close>

text \<open>
  The functions of this file read the socket \<open>s\<close> and the telegrams \<open>status_array\<close>,
  \<open>reset_array\<close>, \<open>shutdown_array\<close>, \<open>enableOperation_array\<close> and \<open>DInputs_array\<close> as
  module-level names. The file as it stands assigns them inside
  \<open>initialize_socket_and_communications\<close> and \<open>initialize_control_words\<close> only; here they
  are parameters of the functions that read them, and the telegrams assigned in
  \<open>initialize_control_words\<close> are given as constants to instantiate them with.

  \<open>sendCommand\<close> has no \<open>try\<close>: an exception of \<open>send\<close> or \<open>recv\<close> leaves it and every
  function that called it. It returns \<open>list(res)\<close>, the bytes received as a list of
  numbers.
\<close>

definition sendCommand :: "sock \<Rightarrow> byte list \<Rightarrow> (py_exception + int list) \<times> sock" where
  "sendCommand s data =
     (case transact s data of
        (None, s') \<Rightarrow> (Inl OSError, s')
      | (Some res, s') \<Rightarrow> (Inr (map uint res), s'))"

definition status_array :: "byte list" where
  "status_array = [0, 0, 0, 0, 0, 13, 0, 43, 13, 0, 0, 0, 96, 65, 0, 0, 0, 0, 2]"

definition DInputs_array :: "byte list" where
  "DInputs_array = [0, 0, 0, 0, 0, 13, 0, 43, 13, 0, 0, 0, 96, 253, 0, 0, 0, 0, 4]"

definition shutdown_array :: "byte list" where
  "shutdown_array = [0, 0, 0, 0, 0, 15, 0, 43, 13, 1, 0, 0, 96, 64, 0, 0, 0, 0, 2, 6, 0]"

definition enableOperation_array :: "byte list" where
  "enableOperation_array = [0, 0, 0, 0, 0, 15, 0, 43, 13, 1, 0, 0, 96, 64, 0, 0, 0, 0, 2, 15, 0]"

definition reset_array :: "byte list" where
  "reset_array = [0, 0, 0, 0, 0, 15, 0, 43, 13, 1, 0, 0, 96, 64, 0, 0, 0, 0, 2, 0, 1]"

text \<open>
  A loop condition of the shape
  \<open>sendCommand(request) != p1 and sendCommand(request) != p2 and ...\<close>: every operand
  sends the request anew, and \<open>and\<close> stops at the first response that equals its pattern.
\<close>

fun all_differ :: "int list list \<Rightarrow> byte list \<Rightarrow> sock \<Rightarrow> (py_exception + bool) \<times> sock" where
  "all_differ [] request s = (Inr True, s)"
| "all_differ (pattern # patterns) request s =
     (case sendCommand s request of
        (Inl e, s1) \<Rightarrow> (Inl e, s1)
      | (Inr response, s1) \<Rightarrow>
          (if response \<noteq> pattern then all_differ patterns request s1 else (Inr False, s1)))"

text \<open>A run of \<open>sendCommand\<close> calls whose results are not looked at.\<close>

fun send_all :: "byte list list \<Rightarrow> sock \<Rightarrow> (py_exception + unit) \<times> sock" where
  "send_all [] s = (Inr (), s)"
| "send_all (data # rest) s =
     (case sendCommand s data of
        (Inl e, s1) \<Rightarrow> (Inl e, s1)
      | (Inr response, s1) \<Rightarrow> send_all rest s1)"

text \<open>
  \<open>set_shdn\<close>: the statuswords awaited after the shutdown command, and the loop
  \<open>while ...: time.sleep(1)\<close>, which has no other exit than its condition. A function
  that does not return has the value \<open>None\<close>.
\<close>

definition shdn_patterns :: "int list list" where
  "shdn_patterns =
     [[0, 0, 0, 0, 0, 15, 0, 43, 13, 0, 0, 0, 96, 65, 0, 0, 0, 0, 2, 33, 6],
      [0, 0, 0, 0, 0, 15, 0, 43, 13, 0, 0, 0, 96, 65, 0, 0, 0, 0, 2, 33, 22],
      [0, 0, 0, 0, 0, 15, 0, 43, 13, 0, 0, 0, 96, 65, 0, 0, 0, 0, 2, 33, 2]]"

partial_function (option) set_shdn_wait ::
  "byte list \<Rightarrow> sock \<Rightarrow> ((py_exception + unit) \<times> sock) option" where
  "set_shdn_wait status s =
     (case all_differ shdn_patterns status s of
        (Inl e, s') \<Rightarrow> Some (Inl e, s')
      | (Inr condition, s') \<Rightarrow>
          (if condition then set_shdn_wait status s' else Some (Inr (), s')))"

definition set_shdn ::
  "byte list \<Rightarrow> byte list \<Rightarrow> byte list \<Rightarrow> sock \<Rightarrow> ((py_exception + unit) \<times> sock) option" where
  "set_shdn reset shutdown status s =
     (case send_all [reset, shutdown] s of
        (Inl e, s1) \<Rightarrow> Some (Inl e, s1)
      | (Inr u, s1) \<Rightarrow> set_shdn_wait status s1)"

text \<open>
  \<open>set_mode\<close> opens with the expression statement \<open>c\<close>. No statement of the file binds
  a name \<open>c\<close> in any scope, and it is no built-in name: evaluating it raises \<open>NameError\<close>,
  on every call and before anything is sent. The loop that follows it waits, without a
  bound, until object 6061h reads as \<open>mode\<close>; as the file stands the function does not
  write object 6060h before.
\<close>

definition name_c :: "py_exception + unit" where
  "name_c = Inl NameError"

partial_function (option) set_mode_wait ::
  "int \<Rightarrow> sock \<Rightarrow> ((py_exception + unit) \<times> sock) option" where
  "set_mode_wait mode s =
     (case all_differ [[0, 0, 0, 0, 0, 14, 0, 43, 13, 0, 0, 0, 96, 97, 0, 0, 0, 0, 1, mode]]
             [0, 0, 0, 0, 0, 13, 0, 43, 13, 0, 0, 0, 96, 97, 0, 0, 0, 0, 1] s of
        (Inl e, s') \<Rightarrow> Some (Inl e, s')
      | (Inr condition, s') \<Rightarrow>
          (if condition then set_mode_wait mode s' else Some (Inr (), s')))"

definition set_mode :: "int \<Rightarrow> sock \<Rightarrow> ((py_exception + unit) \<times> sock) option" where
  "set_mode mode s =
     (case name_c of
        Inl e \<Rightarrow> Some (Inl e, s)
      | Inr u \<Rightarrow> set_mode_wait mode s)"

text \<open>
  \<open>homing\<close>: the statuswords that end the wait (referenced, or an error of the drive),
  the wait itself, which is also left when the digital inputs read as the stop button,
  and the function. It resets the start bit with \<open>enableOperation_array\<close> and then calls
  \<open>set_mode(6)\<close>, whose exception leaves it.
\<close>

definition homing_patterns :: "int list list" where
  "homing_patterns =
     [[0, 0, 0, 0, 0, 15, 0, 43, 13, 0, 0, 0, 96, 65, 0, 0, 0, 0, 2, 39, 22],
      [0, 0, 0, 0, 0, 15, 0, 43, 13, 0, 0, 0, 96, 65, 0, 0, 0, 0, 2, 8, 6],
      [0, 0, 0, 0, 0, 15, 0, 43, 13, 0, 0, 0, 96, 65, 0, 0, 0, 0, 2, 8, 34],
      [0, 0, 0, 0, 0, 15, 0, 43, 13, 0, 0, 0, 96, 65, 0, 0, 0, 0, 2, 8, 2]]"

partial_function (option) homing_wait ::
  "byte list \<Rightarrow> byte list \<Rightarrow> sock \<Rightarrow> ((py_exception + unit) \<times> sock) option" where
  "homing_wait status dinputs s =
     (case all_differ homing_patterns status s of
        (Inl e, s1) \<Rightarrow> Some (Inl e, s1)
      | (Inr condition, s1) \<Rightarrow>
          (if condition then
             (case sendCommand s1 dinputs of
                (Inl e, s2) \<Rightarrow> Some (Inl e, s2)
              | (Inr response, s2) \<Rightarrow>
                  (if response = [0, 0, 0, 0, 0, 17, 0, 43, 13, 0, 0, 0, 96, 253, 0, 0, 0, 0, 4,
                                  8, 0, 66, 0]
                   then Some (Inr (), s2)
                   else homing_wait status dinputs s2))
           else Some (Inr (), s1)))"

definition homing ::
  "byte list \<Rightarrow> byte list \<Rightarrow> byte list \<Rightarrow> sock \<Rightarrow> ((py_exception + unit) \<times> sock) option" where
  "homing enable_operation status dinputs s =
     (case send_all [enable_operation] s of
        (Inl e, s1) \<Rightarrow> Some (Inl e, s1)
      | (Inr u, s1) \<Rightarrow>
          (case set_mode 6 s1 of
             None \<Rightarrow> None
           | Some (Inl e, s2) \<Rightarrow> Some (Inl e, s2)
           | Some (Inr u, s2) \<Rightarrow>
               (case send_all
                       [[0, 0, 0, 0, 0, 17, 0, 43, 13, 1, 0, 0, 96, 146, 1, 0, 0, 0, 4, 24, 21, 0, 0],
                        [0, 0, 0, 0, 0, 17, 0, 43, 13, 1, 0, 0, 96, 146, 2, 0, 0, 0, 4, 1, 0, 0, 0],
                        [0, 0, 0, 0, 0, 17, 0, 43, 13, 1, 0, 0, 96, 153, 1, 0, 0, 0, 4, 112, 23, 0, 0],
                        [0, 0, 0, 0, 0, 17, 0, 43, 13, 1, 0, 0, 96, 153, 2, 0, 0, 0, 4, 112, 23, 0, 0],
                        [0, 0, 0, 0, 0, 17, 0, 43, 13, 1, 0, 0, 96, 154, 0, 0, 0, 0, 4, 160, 134, 1, 0],
                        [0, 0, 0, 0, 0, 15, 0, 43, 13, 1, 0, 0, 96, 64, 0, 0, 0, 0, 2, 31, 0]] s2 of
                  (Inl e, s3) \<Rightarrow> Some (Inl e, s3)
                | (Inr u, s3) \<Rightarrow> homing_wait status dinputs s3)))"

text \<open>
  A hypothesis on the peer: every exchange delivers a response, and none of the responses
  is one of the patterns.
\<close>

definition never_delivers :: "int list list \<Rightarrow> sock \<Rightarrow> bool" where
  "never_delivers patterns s \<longleftrightarrow>
     (\<forall>k. case script s k of Recv r \<Rightarrow> map uint r \<notin> set patterns | _ \<Rightarrow> False)"

section \<open>\<open>archive/yz-gantry-control_v9.py\<close>\<close>









text \<open>
  For stating what a peer does with a write: the \<open>k\<close>-th next exchange is acknowledged
  (a response of at least eight bytes with function code 43), or it is sent and not
  acknowledged. And the packet that \<open>write_object\<close> sends for the data bytes given.
\<close>

definition acknowledged :: "sock \<Rightarrow> nat \<Rightarrow> bool" where
  "acknowledged s k =
     (case script s (calls s + k) of
        Recv r \<Rightarrow> 8 \<le> length r \<and> r ! 7 = 43
      | _ \<Rightarrow> False)"

definition unacknowledged :: "sock \<Rightarrow> nat \<Rightarrow> bool" where
  "unacknowledged s k =
     (case script s (calls s + k) of
        Recv r \<Rightarrow> \<not> (8 \<le> length r \<and> r ! 7 = 43)
      | RecvRaises \<Rightarrow> True
      | SendRaises \<Rightarrow> False)"




section \<open>Properties of the statusword decoding\<close>

lemma and_4F_via_6F: "(s::int) AND 0x4F = (s AND 0x6F) AND 0x4F"
  by (simp add: and.assoc)

lemma mask_6F_21: "(s::int) AND 0x6F = 0x21 \<Longrightarrow> s AND 0x4F = 1"
  by (subst and_4F_via_6F) simp

lemma mask_6F_23: "(s::int) AND 0x6F = 0x23 \<Longrightarrow> s AND 0x4F = 3"
  by (subst and_4F_via_6F) simp

lemma mask_6F_27: "(s::int) AND 0x6F = 0x27 \<Longrightarrow> s AND 0x4F = 7"
  by (subst and_4F_via_6F) simp

lemma decode_statusword_state_eq_spec:
  "decode_statusword_state s = classify_spec_priority s"
proof -
  consider "s AND 0x6F = 0x21" | "s AND 0x6F = 0x23" | "s AND 0x6F = 0x27"
    | "s AND 0x6F \<noteq> 0x21" "s AND 0x6F \<noteq> 0x23" "s AND 0x6F \<noteq> 0x27"
    by blast
  then show ?thesis
  proof cases
    case 1
    then show ?thesis
      using mask_6F_21 [OF 1]
      by (simp add: decode_statusword_state_def classify_spec_priority_def)
  next
    case 2
    then show ?thesis
      using mask_6F_23 [OF 2]
      by (simp add: decode_statusword_state_def classify_spec_priority_def)
  next
    case 3
    then show ?thesis
      using mask_6F_27 [OF 3]
      by (simp add: decode_statusword_state_def classify_spec_priority_def)
  next
    case 4
    then show ?thesis
      by (simp add: decode_statusword_state_def classify_spec_priority_def)
  qed
qed

lemma at_most_one_mask_equation: "length (filter (\<lambda>b. b) (mask_equations s)) \<le> 1"
proof -
  consider "s AND 0x6F = 0x21" | "s AND 0x6F = 0x23" | "s AND 0x6F = 0x27"
    | "s AND 0x6F \<noteq> 0x21" "s AND 0x6F \<noteq> 0x23" "s AND 0x6F \<noteq> 0x27"
    by blast
  then show ?thesis
  proof cases
    case 1
    then show ?thesis using mask_6F_21 [OF 1] by (simp add: mask_equations_def)
  next
    case 2
    then show ?thesis using mask_6F_23 [OF 2] by (simp add: mask_equations_def)
  next
    case 3
    then show ?thesis using mask_6F_27 [OF 3] by (simp add: mask_equations_def)
  next
    case 4
    then show ?thesis by (simp add: mask_equations_def)
  qed
qed

lemma decode_statusword_example:
  "decode_statusword 0x0627 = ''State: Operation Enabled (0x0627), Target Reached, Remote (DI7=1)''"
  by (simp add: decode_statusword_def decode_statusword_state_def format_04X_def
      hex_digits.simps hex_digit_def Let_def)

text \<open>
  Claim C3. The classification of a statusword is defined for every statusword (here: for
  every integer, the 16-bit ones among them) and agrees with the specification's priority
  order: \<open>0x0008\<close> is Fault, \<open>0x0040\<close> is Switch On Disabled, \<open>0x0000\<close> is Not Ready to
  Switch On, every statusword with \<open>(s & 0x006F) == 0x0027\<close> is Operation Enabled, and a
  statusword that satisfies none of the six mask equations is Unknown.
\<close>

theorem decode_statusword_state_classification:
  "decode_statusword_state 0x0008 = STATE_FAULT
   \<and> decode_statusword_state 0x0040 = STATE_SWITCH_ON_DISABLED
   \<and> decode_statusword_state 0x0000 = STATE_NOT_READY
   \<and> (s AND 0x006F = 0x0027 \<longrightarrow> decode_statusword_state s = STATE_OPERATION_ENABLED)
   \<and> (True \<notin> set (mask_equations s) \<longrightarrow> decode_statusword_state s = STATE_UNKNOWN)
   \<and> decode_statusword_state s = classify_spec_priority s"
proof -
  have fixed: "decode_statusword_state 0x0008 = STATE_FAULT"
    "decode_statusword_state 0x0040 = STATE_SWITCH_ON_DISABLED"
    "decode_statusword_state 0x0000 = STATE_NOT_READY"
    by (simp_all add: decode_statusword_state_def)
  have enabled: "decode_statusword_state s = STATE_OPERATION_ENABLED" if "s AND 0x006F = 0x0027"
    using that mask_6F_27 [OF that] by (simp add: decode_statusword_state_def)
  have unknown: "decode_statusword_state s = STATE_UNKNOWN" if "True \<notin> set (mask_equations s)"
    using that by (simp add: decode_statusword_state_def mask_equations_def)
  from fixed enabled unknown decode_statusword_state_eq_spec show ?thesis
    by blast
qed

theorem decode_statusword_state_classification_witness:
  "(0x0627::int) AND 0x006F = 0x0027
   \<and> decode_statusword_state 0x0627 = STATE_OPERATION_ENABLED
   \<and> True \<notin> set (mask_equations 0x000F)
   \<and> decode_statusword_state 0x000F = STATE_UNKNOWN"
  using decode_statusword_state_classification [of "0x0627"]
    decode_statusword_state_classification [of "0x000F"]
  by (simp add: mask_equations_def)

text \<open>
  Claim C10. For every statusword at most one of the six mask equations of the
  classification holds, so the order in which the code tests them (Not Ready first, Fault
  last) gives the same state as the specification's priority order (Fault first).
\<close>

theorem mask_equations_exclusive:
  "length (filter (\<lambda>b. b) (mask_equations s)) \<le> 1
   \<and> decode_statusword_state s = classify_spec_priority s"
  using at_most_one_mask_equation decode_statusword_state_eq_spec by simp

section \<open>Reading objects\<close>

lemma le_value_bounds: "0 \<le> le_value bs \<and> le_value bs < 2 ^ (8 * length bs)"
proof (induction bs)
  case Nil
  then show ?case by simp
next
  case (Cons b bs)
  have b: "0 \<le> uint b" "uint b < 256"
    using uint_bounded [of b] by simp_all
  have "uint b + 256 * le_value bs < 256 * (le_value bs + 1)"
    using b by simp
  also have "\<dots> \<le> 256 * 2 ^ (8 * length bs)"
    using Cons.IH by (intro mult_left_mono) simp_all
  finally show ?case using Cons.IH b by (simp add: power_add)
qed

lemma le_value_take_Suc:
  "n < length xs \<Longrightarrow> le_value (take (Suc n) xs) = le_value (take n xs) + 2 ^ (8 * n) * uint (xs ! n)"
proof (induction xs arbitrary: n)
  case Nil
  then show ?case by simp
next
  case (Cons x xs)
  show ?case
  proof (cases n)
    case 0
    then show ?thesis by simp
  next
    case (Suc m)
    with Cons.prems have "m < length xs" by simp
    from Cons.IH [OF this] show ?thesis using Suc by (simp add: algebra_simps power_add)
  qed
qed

lemma or_push_bit_add:
  assumes "0 \<le> v" "v < 2 ^ m"
  shows "v OR push_bit m (b::int) = v + push_bit m b"
proof -
  have v: "take_bit m v = v"
    using assms by (simp add: take_bit_int_eq_self)
  have "take_bit m v AND push_bit m b = 0"
    by (rule bit_eqI) (auto simp add: bit_simps)
  then have "v AND push_bit m b = 0" by (simp add: v)
  then show ?thesis by (simp add: disjunctive_add_eq_or)
qed

lemma payload_loop:
  "n + 19 \<le> length response \<Longrightarrow>
   foldl (\<lambda>v i. v OR push_bit (8 * i) (uint (response ! (19 + i)))) 0 [0..<n]
     = le_value (take n (drop 19 response))"
proof (induction n)
  case 0
  then show ?case by simp
next
  case (Suc n)
  let ?xs = "drop 19 response"
  have n: "n < length ?xs" using Suc.prems by simp
  have IH: "foldl (\<lambda>v i. v OR push_bit (8 * i) (uint (response ! (19 + i)))) 0 [0..<n]
     = le_value (take n ?xs)" using Suc by simp
  have bnd: "0 \<le> le_value (take n ?xs)" "le_value (take n ?xs) < 2 ^ (8 * n)"
    using le_value_bounds [of "take n ?xs"] n by simp_all
  have nth: "?xs ! n = response ! (19 + n)" using Suc.prems by simp
  have "foldl (\<lambda>v i. v OR push_bit (8 * i) (uint (response ! (19 + i)))) 0 [0..<Suc n]
      = le_value (take n ?xs) OR push_bit (8 * n) (uint (response ! (19 + n)))"
    by (simp add: IH)
  also have "\<dots> = le_value (take n ?xs) + push_bit (8 * n) (uint (response ! (19 + n)))"
    by (rule or_push_bit_add [OF bnd])
  also have "\<dots> = le_value (take (Suc n) ?xs)"
    by (simp add: le_value_take_Suc [OF n] nth push_bit_eq_mult mult.commute)
  finally show ?case .
qed

lemma payload_value_le_value:
  "19 + sz \<le> int (length response) \<Longrightarrow> payload_value response sz = le_value (take (nat sz) (drop 19 response))"
proof (cases "0 < sz")
  case True
  assume "19 + sz \<le> int (length response)"
  with True have "nat sz + 19 \<le> length response" by arith
  then show ?thesis unfolding payload_value_def by (rule payload_loop)
next
  case False
  then show ?thesis by (simp add: payload_value_def)
qed


lemma and_FF_range: "0 \<le> (x::int) AND 0xFF" "(x::int) AND 0xFF < 256"
proof -
  show "0 \<le> x AND 0xFF" by simp
  have "x AND 0xFF \<le> 0xFF" by (rule AND_upper2) simp
  then show "x AND 0xFF < 256" by simp
qed

lemma bytearray_Some:
  "list_all (\<lambda>x. 0 \<le> x \<and> x < 256) xs \<Longrightarrow> bytearray xs = Some (map word_of_int xs)"
  by (simp add: bytearray_def)

lemma read_request_bytearray:
  assumes "0 \<le> sub_index" "sub_index < 256" "0 \<le> sz" "sz < 256"
  shows "bytearray [0x00, 0x0F, 0x00, 0x00, 0x00, 0x0D, 0x00, 0x2B, 0x0D, 0x00, 0x00, 0x00,
                      drop_bit 8 index AND 0xFF, index AND 0xFF, sub_index,
                      0x00, 0x00, 0x00, sz] \<noteq> None"
  using assms and_FF_range by (simp add: bytearray_def)

text \<open>
  Claim C1, as amended. For a read with expected payload size \<open>sz\<close>, a response shorter
  than \<open>19 + sz\<close> bytes (21 bytes for \<open>read_statusword\<close>) never yields a payload value:
  \<open>read_object\<close> and \<open>read_statusword\<close> return \<open>None\<close>, which is also what they return
  when \<open>recv\<close> raises. No error value carrying the length of the buffer exists.
\<close>

theorem short_read_yields_None:
  "(script sock (calls sock) = Recv response \<and> int (length response) < 19 + sz
      \<longrightarrow> fst (read_object_v6 sock index sub_index sz) = None)
   \<and> (script sock (calls sock) = Recv response \<and> length response < 21
      \<longrightarrow> fst (read_statusword_diag sock) = None \<and> fst (read_statusword_v6 sock) = None)
   \<and> (script sock (calls sock) = RecvRaises
      \<longrightarrow> fst (read_object_v6 sock index sub_index sz) = None
        \<and> fst (read_statusword_diag sock) = None \<and> fst (read_statusword_v6 sock) = None)"
  by (simp add: read_object_v6_def read_statusword_diag_def read_statusword_v6_def transact_def
      split: option.splits)

theorem short_read_yields_None_witness:
  "script (mock [Recv modbus_exception_response] RecvRaises)
       (calls (mock [Recv modbus_exception_response] RecvRaises)) = Recv modbus_exception_response
   \<and> int (length modbus_exception_response) < 19 + 2
   \<and> fst (read_object_v6 (mock [Recv modbus_exception_response] RecvRaises) 0x6041 0 2) = None
   \<and> fst (read_statusword_diag (mock [Recv modbus_exception_response] RecvRaises)) = None"
  using short_read_yields_None [of "mock [Recv modbus_exception_response] RecvRaises"
      modbus_exception_response 2 "0x6041" 0]
  by (simp add: mock_def feed_def modbus_exception_response_def)

text \<open>
  Claim C1 as stated fails: a nine-byte response, an empty response and a time-out of
  \<open>recv\<close> all give the one result \<open>None\<close>, so the result neither carries the length of
  the buffer nor tells a short response from an absent value.
\<close>

theorem short_read_counterexample:
  "fst (read_object_v6 (mock [Recv modbus_exception_response] RecvRaises) 0x6041 0 2) = None
   \<and> fst (read_object_v6 (mock [Recv []] RecvRaises) 0x6041 0 2) = None
   \<and> fst (read_object_v6 (mock [RecvRaises] RecvRaises) 0x6041 0 2) = None
   \<and> fst (read_statusword_diag (mock [Recv modbus_exception_response] RecvRaises)) = None
   \<and> fst (read_statusword_diag (mock [Recv []] RecvRaises)) = None
   \<and> fst (read_statusword_diag (mock [RecvRaises] RecvRaises)) = None"
  by (simp add: read_object_v6_def read_statusword_diag_def transact_def bytearray_def
      mock_def feed_def modbus_exception_response_def)

lemma statusword_bytes_le_value:
  assumes "21 \<le> length response"
  shows "uint (response ! 19) OR push_bit 8 (uint (response ! 20))
           = le_value (take 2 (drop 19 response))"
proof -
  have bytes: "take 2 (drop 19 response) = [response ! 19, response ! 20]"
    using assms by (simp add: take_Suc_conv_app_nth numeral_2_eq_2)
  have low: "0 \<le> uint (response ! 19)" "uint (response ! 19) < 2 ^ 8"
    using uint_bounded [of "response ! 19"] by simp_all
  have "uint (response ! 19) OR push_bit 8 (uint (response ! 20))
          = uint (response ! 19) + push_bit 8 (uint (response ! 20))"
    by (rule or_push_bit_add [OF low])
  then show ?thesis
    by (simp add: bytes push_bit_eq_mult)
qed

text \<open>
  Claim C6. For a response of at least \<open>19 + sz\<close> bytes to a read of size \<open>sz\<close>,
  \<open>read_object\<close> returns the \<open>sz\<close> bytes from offset 19 read as a little-endian number,
  and for a response of at least 21 bytes \<open>read_statusword\<close> (of \<open>diag.py\<close> and of
  \<open>enhanced_unit_test_v6.py\<close>) returns the two bytes from offset 19 read as a
  little-endian number; a statusword response with bytes 19 and 20 equal to \<open>0x27, 0x00\<close>
  decodes to \<open>0x0027\<close>, which classifies as Operation Enabled.
\<close>

theorem read_payload_little_endian:
  assumes "script sock (calls sock) = Recv response"
    and "0 \<le> sub_index" "sub_index < 256" "0 \<le> sz" "sz < 256"
    and "19 + sz \<le> int (length response)"
  shows "fst (read_object_v6 sock index sub_index sz)
           = Some (le_value (take (nat sz) (drop 19 response)))
         \<and> (21 \<le> length response
            \<longrightarrow> fst (read_statusword_diag sock) = Some (le_value (take 2 (drop 19 response)))
              \<and> fst (read_statusword_v6 sock) = Some (le_value (take 2 (drop 19 response))))
         \<and> (sz = 2 \<and> response ! 19 = 0x27 \<and> response ! 20 = 0x00
            \<longrightarrow> fst (read_statusword_diag sock) = Some 0x0027
              \<and> fst (read_statusword_v6 sock) = Some 0x0027
              \<and> fst (read_object_v6 sock index sub_index sz) = Some 0x0027
              \<and> decode_statusword_state 0x0027 = STATE_OPERATION_ENABLED)"
proof -
  have main: "fst (read_object_v6 sock index sub_index sz)
           = Some (le_value (take (nat sz) (drop 19 response)))"
    using assms read_request_bytearray [OF assms(2-5), of index]
    by (auto simp add: read_object_v6_def transact_def payload_value_le_value split: option.splits)
  have status: "fst (read_statusword_diag sock) = Some (le_value (take 2 (drop 19 response)))
              \<and> fst (read_statusword_v6 sock) = Some (le_value (take 2 (drop 19 response)))"
    if len: "21 \<le> length response"
    using assms(1) len statusword_bytes_le_value [OF len]
    by (simp add: read_statusword_diag_def read_statusword_v6_def transact_def bytearray_def)
  have fixture: "fst (read_statusword_diag sock) = Some 0x0027
              \<and> fst (read_statusword_v6 sock) = Some 0x0027
              \<and> fst (read_object_v6 sock index sub_index sz) = Some 0x0027
              \<and> decode_statusword_state 0x0027 = STATE_OPERATION_ENABLED"
    if "sz = 2" "response ! 19 = 0x27" "response ! 20 = 0x00"
  proof -
    have len: "21 \<le> length response" using assms(6) that(1) by simp
    have "take (nat sz) (drop 19 response) = [response ! 19, response ! 20]"
      using len that(1) by (simp add: take_Suc_conv_app_nth numeral_2_eq_2)
    then have "le_value (take (nat sz) (drop 19 response)) = 0x27"
      using that by simp
    then show ?thesis
      using main that len assms(1)
      by (simp add: read_statusword_diag_def read_statusword_v6_def transact_def bytearray_def
          decode_statusword_state_def)
  qed
  from main status fixture show ?thesis by blast
qed

theorem read_payload_little_endian_witness:
  "fst (read_object_v6 (mock [Recv (statusword_response 0x0427)] RecvRaises) 0x6041 0 2)
     = Some 0x0427
   \<and> fst (read_statusword_diag (mock [Recv (statusword_response 0x0427)] RecvRaises))
     = Some 0x0427
   \<and> fst (read_statusword_v6 (mock [Recv (statusword_response 0x0427)] RecvRaises))
     = Some 0x0427
   \<and> fst (read_object_v6 (mock [Recv (statusword_response 0x0027)] RecvRaises) 0x6041 0 2)
     = Some 0x0027
   \<and> fst (read_statusword_diag (mock [Recv (statusword_response 0x0027)] RecvRaises)) = Some 0x0027
   \<and> fst (read_statusword_v6 (mock [Recv (statusword_response 0x0027)] RecvRaises)) = Some 0x0027
   \<and> decode_statusword_state 0x0027 = STATE_OPERATION_ENABLED"
proof -
  let ?s = "mock [Recv (statusword_response 0x0027)] RecvRaises"
  let ?t = "mock [Recv (statusword_response 0x0427)] RecvRaises"
  have 1: "script ?s (calls ?s) = Recv (statusword_response 0x0027)"
    "script ?t (calls ?t) = Recv (statusword_response 0x0427)"
    by (simp_all add: mock_def feed_def)
  have 2: "19 + 2 \<le> int (length (statusword_response 0x0027))"
    "19 + 2 \<le> int (length (statusword_response 0x0427))"
    by (simp_all add: statusword_response_def)
  have 3: "(2::int) = 2 \<and> statusword_response 0x0027 ! 19 = 0x27 \<and> statusword_response 0x0027 ! 20 = 0x00"
    "21 \<le> length (statusword_response 0x0427)"
    by (simp_all add: statusword_response_def)
  have 4: "le_value (take (nat 2) (drop 19 (statusword_response 0x0427))) = 0x0427"
    "le_value (take 2 (drop 19 (statusword_response 0x0427))) = 0x0427"
    by (simp_all add: statusword_response_def)
  have a: "fst (read_object_v6 ?s 0x6041 0 2)
           = Some (le_value (take (nat 2) (drop 19 (statusword_response 0x0027))))
         \<and> (21 \<le> length (statusword_response 0x0027)
            \<longrightarrow> fst (read_statusword_diag ?s)
                  = Some (le_value (take 2 (drop 19 (statusword_response 0x0027))))
              \<and> fst (read_statusword_v6 ?s)
                  = Some (le_value (take 2 (drop 19 (statusword_response 0x0027)))))
         \<and> ((2::int) = 2 \<and> statusword_response 0x0027 ! 19 = 0x27
              \<and> statusword_response 0x0027 ! 20 = 0x00
            \<longrightarrow> fst (read_statusword_diag ?s) = Some 0x0027
              \<and> fst (read_statusword_v6 ?s) = Some 0x0027
              \<and> fst (read_object_v6 ?s 0x6041 0 2) = Some 0x0027
              \<and> decode_statusword_state 0x0027 = STATE_OPERATION_ENABLED)"
    by (rule read_payload_little_endian [OF 1(1) _ _ _ _ 2(1)]) simp_all
  have b: "fst (read_object_v6 ?t 0x6041 0 2)
           = Some (le_value (take (nat 2) (drop 19 (statusword_response 0x0427))))
         \<and> (21 \<le> length (statusword_response 0x0427)
            \<longrightarrow> fst (read_statusword_diag ?t)
                  = Some (le_value (take 2 (drop 19 (statusword_response 0x0427))))
              \<and> fst (read_statusword_v6 ?t)
                  = Some (le_value (take 2 (drop 19 (statusword_response 0x0427)))))
         \<and> ((2::int) = 2 \<and> statusword_response 0x0427 ! 19 = 0x27
              \<and> statusword_response 0x0427 ! 20 = 0x00
            \<longrightarrow> fst (read_statusword_diag ?t) = Some 0x0027
              \<and> fst (read_statusword_v6 ?t) = Some 0x0027
              \<and> fst (read_object_v6 ?t 0x6041 0 2) = Some 0x0027
              \<and> decode_statusword_state 0x0027 = STATE_OPERATION_ENABLED)"
    by (rule read_payload_little_endian [OF 1(2) _ _ _ _ 2(2)]) simp_all
  from a 3(1) have s: "fst (read_object_v6 ?s 0x6041 0 2) = Some 0x0027"
    "fst (read_statusword_diag ?s) = Some 0x0027" "fst (read_statusword_v6 ?s) = Some 0x0027"
    "decode_statusword_state 0x0027 = STATE_OPERATION_ENABLED"
    by blast+
  from b 3(2) have t: "fst (read_object_v6 ?t 0x6041 0 2)
           = Some (le_value (take (nat 2) (drop 19 (statusword_response 0x0427))))"
    "fst (read_statusword_diag ?t)
           = Some (le_value (take 2 (drop 19 (statusword_response 0x0427))))"
    "fst (read_statusword_v6 ?t)
           = Some (le_value (take 2 (drop 19 (statusword_response 0x0427))))"
    by blast+
  from s t [unfolded 4] show ?thesis by blast
qed

section \<open>Bringing the drive up\<close>

lemma statusword_request_bytearray:
  "bytearray [0x00, 0x0F, 0x00, 0x00, 0x00, 0x0D, 0x00, 0x2B, 0x0D, 0x00, 0x00, 0x00,
              0x60, 0x41, 0x00, 0x00, 0x00, 0x00, 0x02] = Some statusword_request"
  by (simp add: bytearray_def statusword_request_def)

lemma controlword_packet_bytearray:
  "bytearray [0x00, 0x0F, 0x00, 0x00, 0x00, 0x0F, 0x00, 0x2B, 0x0D, 0x01, 0x00, 0x00,
              0x60, 0x40, 0x00, 0x00, 0x00, 0x00, 0x02,
              val AND 0xFF, drop_bit 8 val AND 0xFF] = Some (controlword_packet val)"
  using and_FF_range [of val] and_FF_range [of "drop_bit 8 val"]
  by (simp add: bytearray_def controlword_packet_def)

lemma transact_sent:
  "send_ok s 0 \<Longrightarrow>
   transact s packet = (case script s (calls s) of Recv r \<Rightarrow> Some r | _ \<Rightarrow> None, exchanged s packet)"
  by (simp add: transact_def exchanged_def send_ok_def split: exchange.splits)

lemma exchanged_simps [simp]:
  "script (exchanged s p) = script s"
  "calls (exchanged s p) = Suc (calls s)"
  "sent (exchanged s p) = sent s @ [p]"
  by (simp_all add: exchanged_def)

lemma reads_status_exchanged [simp]:
  "reads_status (exchanged s p) k = reads_status s (Suc k)"
  by (simp add: reads_status_def)

lemma send_ok_exchanged [simp]:
  "send_ok (exchanged s p) k = send_ok s (Suc k)"
  by (simp add: send_ok_def)

lemma exchanges_simps [simp]:
  "script (exchanges s ps) = script s"
  "calls (exchanges s ps) = calls s + length ps"
  "sent (exchanges s ps) = sent s @ ps"
  by (simp_all add: exchanges_def)

lemma exchanges_Nil [simp]: "exchanges s [] = s"
  by (simp add: exchanges_def)

lemma exchanges_exchanges [simp]: "exchanges (exchanges s ps) qs = exchanges s (ps @ qs)"
  by (simp add: exchanges_def)

lemma exchanged_exchanges: "exchanged s p = exchanges s [p]"
  by (simp add: exchanged_def exchanges_def)

lemma reads_status_exchanges [simp]:
  "reads_status (exchanges s ps) k = reads_status s (length ps + k)"
  by (simp add: reads_status_def add.assoc)

lemma reads_status_send_ok: "reads_status s k = Some x \<Longrightarrow> send_ok s k"
  by (auto simp add: reads_status_def send_ok_def)

lemma read_statusword_diag_sent:
  "send_ok s 0 \<Longrightarrow> read_statusword_diag s = (reads_status s 0, exchanged s statusword_request)"
  by (simp add: read_statusword_diag_def statusword_request_bytearray transact_sent reads_status_def
      split: exchange.splits)

lemma read_statusword_v6_sent:
  "send_ok s 0 \<Longrightarrow> read_statusword_v6 s = (reads_status s 0, exchanged s statusword_request)"
  by (auto simp add: read_statusword_v6_def statusword_request_bytearray transact_sent reads_status_def
      split: exchange.splits)

lemma write_controlword_diag_sent:
  "send_ok s 0 \<Longrightarrow> snd (write_controlword_diag s val) = exchanged s (controlword_packet val)"
  by (simp add: write_controlword_diag_def controlword_packet_bytearray transact_sent
      split: exchange.splits)

lemma transition_block_v6_sent:
  assumes "send_ok s 0" "reads_status s 1 = Some status"
  shows "transition_block_v6 src cw pattern dst src s =
           (if status AND 0x006F = pattern then Continue dst else Return False,
            exchanged (exchanged s (controlword_packet cw)) statusword_request)"
  using assms reads_status_send_ok [OF assms(2)]
  by (simp add: transition_block_v6_def write_controlword_v6_def case_prod_unfold
      write_controlword_diag_sent read_statusword_v6_sent status_is_def)

lemma transition_block_v6_other:
  "state \<noteq> src \<Longrightarrow> transition_block_v6 src cw pattern dst state s = (Continue state, s)"
  by (simp add: transition_block_v6_def)

lemma go_v6_from_disabled:
  assumes r0: "reads_status sock 0 = Some s0" and d0: "s0 AND 0x004F = 0x0040"
  shows "go_through_state_machine_v6 sock =
     (case next_block (next_block
             (shutdown_block_v6 STATE_SWITCH_ON_DISABLED (exchanged sock statusword_request))
             switch_on_block_v6) enable_block_v6 of
        (Continue state, s) \<Rightarrow> (Inr (state = STATE_OPERATION_ENABLED), s)
      | (Return b, s) \<Rightarrow> (Inr b, s)
      | (Raise e, s) \<Rightarrow> (Inl e, s))"
  using r0 d0 reads_status_send_ok [OF r0]
  by (simp add: go_through_state_machine_v6_def read_statusword_v6_sent decode_statusword_state_def
      fault_block_v6_def not_ready_block_v6_def next_block_def)


lemma go_v6_stays_ready:
  assumes r0: "reads_status sock 0 = Some s0" and d0: "s0 AND 0x004F = 0x0040"
    and w1: "send_ok sock 1" and r1: "reads_status sock 2 = Some s1" and d1: "s1 AND 0x006F = 0x0021"
    and w2: "send_ok sock 3" and r2: "reads_status sock 4 = Some s2" and d2: "s2 AND 0x006F = 0x0021"
  shows "fst (go_through_state_machine_v6 sock) = Inr False"
    and "sent (snd (go_through_state_machine_v6 sock)) =
           sent sock @ [statusword_request, controlword_packet 0x0006, statusword_request,
             controlword_packet 0x0007, statusword_request]"
  using w1 r1 d1 w2 r2 d2
  by (simp_all add: go_v6_from_disabled [OF r0 d0] eval_nat_numeral next_block_def
      shutdown_block_v6_def switch_on_block_v6_def enable_block_v6_def
      transition_block_v6_sent)

lemma go_diag_sent:
  assumes r0: "reads_status sock 0 = Some s0"
    and w1: "send_ok sock 1" and r1: "send_ok sock 2"
    and w2: "send_ok sock 3" and r2: "send_ok sock 4"
    and w3: "send_ok sock 5" and r3: "reads_status sock 6 = Some s3"
  shows "fst (go_through_state_machine_diag sock) = (s3 AND 0x0627 = 0x0627)"
    and "sent (snd (go_through_state_machine_diag sock)) =
           sent sock @ [statusword_request, controlword_packet 0x0006, statusword_request,
             controlword_packet 0x0007, statusword_request, controlword_packet 0x000F,
             statusword_request]"
  using assms reads_status_send_ok [OF r0] reads_status_send_ok [OF r3]
  by (simp_all add: go_through_state_machine_diag_def eval_nat_numeral case_prod_unfold Let_def
      read_statusword_diag_sent write_controlword_diag_sent)

lemma controlword_writes_bring_up:
  "controlword_writes (xs @ [statusword_request, controlword_packet 0x0006, statusword_request,
             controlword_packet 0x0007, statusword_request, controlword_packet 0x000F,
             statusword_request]) = controlword_writes xs @ [0x0006, 0x0007, 0x000F]"
  "controlword_writes (xs @ [statusword_request, controlword_packet 0x0006, statusword_request,
             controlword_packet 0x0007, statusword_request]) = controlword_writes xs @ [0x0006, 0x0007]"
  by (simp_all add: controlword_writes_def is_controlword_write_def statusword_request_def
      controlword_packet_def)


lemmas peer_defs = mock_def feed_def reads_status_def send_ok_def statusword_response_def
  write_ack_def

lemma transition_block_v6_general:
  assumes "send_ok s 0" "send_ok s 1"
  shows "transition_block_v6 src cw pattern dst src s =
           (case reads_status s 1 of
              None \<Rightarrow> Raise TypeError
            | Some status \<Rightarrow> if status AND 0x006F = pattern then Continue dst else Return False,
            exchanged (exchanged s (controlword_packet cw)) statusword_request)"
  using assms
  by (simp add: transition_block_v6_def write_controlword_v6_def case_prod_unfold
      write_controlword_diag_sent read_statusword_v6_sent status_is_def split: option.splits)

lemma go_v6_steps:
  assumes r0: "reads_status sock 0 = Some s0" and d0: "s0 AND 0x004F = 0x0040"
    and ok: "send_ok sock 1" "send_ok sock 2" "send_ok sock 3" "send_ok sock 4"
      "send_ok sock 5" "send_ok sock 6"
  shows "go_through_state_machine_v6 sock =
     (case reads_status sock 2 of
        None \<Rightarrow>
          (Inl TypeError, exchanges sock [statusword_request, controlword_packet 0x0006,
             statusword_request])
      | Some s1 \<Rightarrow>
          if s1 AND 0x006F \<noteq> 0x0021
          then (Inr False, exchanges sock [statusword_request, controlword_packet 0x0006,
                  statusword_request])
          else
            (case reads_status sock 4 of
               None \<Rightarrow>
                 (Inl TypeError, exchanges sock [statusword_request, controlword_packet 0x0006,
                    statusword_request, controlword_packet 0x0007, statusword_request])
             | Some s2 \<Rightarrow>
                 if s2 AND 0x006F \<noteq> 0x0023
                 then (Inr False, exchanges sock [statusword_request, controlword_packet 0x0006,
                         statusword_request, controlword_packet 0x0007, statusword_request])
                 else
                   (case reads_status sock 6 of None \<Rightarrow> Inl TypeError
                    | Some s3 \<Rightarrow> Inr (s3 AND 0x006F = 0x0027),
                    exchanges sock [statusword_request, controlword_packet 0x0006,
                      statusword_request, controlword_packet 0x0007, statusword_request,
                      controlword_packet 0x000F, statusword_request])))"
proof -
  define a where "a = exchanged sock statusword_request"
  define b where "b = exchanged (exchanged a (controlword_packet 0x0006)) statusword_request"
  define c where "c = exchanged (exchanged b (controlword_packet 0x0007)) statusword_request"
  define d where "d = exchanged (exchanged c (controlword_packet 0x000F)) statusword_request"
  have oks: "send_ok a 0" "send_ok a 1" "send_ok b 0" "send_ok b 1" "send_ok c 0" "send_ok c 1"
    using ok by (simp_all add: a_def b_def c_def eval_nat_numeral)
  have rs: "reads_status a 1 = reads_status sock 2" "reads_status b 1 = reads_status sock 4"
    "reads_status c 1 = reads_status sock 6"
    by (simp_all add: a_def b_def c_def eval_nat_numeral)
  have ex: "b = exchanges sock [statusword_request, controlword_packet 0x0006, statusword_request]"
    "c = exchanges sock [statusword_request, controlword_packet 0x0006,
                    statusword_request, controlword_packet 0x0007, statusword_request]"
    "d = exchanges sock [statusword_request, controlword_packet 0x0006,
                      statusword_request, controlword_packet 0x0007, statusword_request,
                      controlword_packet 0x000F, statusword_request]"
    by (simp_all add: a_def b_def c_def d_def exchanged_exchanges)
  have t1: "shutdown_block_v6 STATE_SWITCH_ON_DISABLED a =
      (case reads_status sock 2 of None \<Rightarrow> Raise TypeError
       | Some st \<Rightarrow> if st AND 0x006F = 0x0021 then Continue STATE_READY_TO_SWITCH_ON
                     else Return False, b)"
    unfolding shutdown_block_v6_def transition_block_v6_general [OF oks(1,2)] rs b_def ..
  have t2: "switch_on_block_v6 STATE_READY_TO_SWITCH_ON b =
      (case reads_status sock 4 of None \<Rightarrow> Raise TypeError
       | Some st \<Rightarrow> if st AND 0x006F = 0x0023 then Continue STATE_SWITCHED_ON
                     else Return False, c)"
    unfolding switch_on_block_v6_def transition_block_v6_general [OF oks(3,4)] rs c_def ..
  have t3: "enable_block_v6 STATE_SWITCHED_ON c =
      (case reads_status sock 6 of None \<Rightarrow> Raise TypeError
       | Some st \<Rightarrow> if st AND 0x006F = 0x0027 then Continue STATE_OPERATION_ENABLED
                     else Return False, d)"
    unfolding enable_block_v6_def transition_block_v6_general [OF oks(5,6)] rs d_def ..
  show ?thesis
    unfolding go_v6_from_disabled [OF r0 d0] a_def [symmetric] t1 ex [symmetric]
    by (simp add: next_block_def t2 t3 split: option.splits)
qed

lemma go_diag_steps:
  assumes r0: "reads_status sock 0 = Some s0"
    and ok: "send_ok sock 1" "send_ok sock 2" "send_ok sock 3" "send_ok sock 4"
      "send_ok sock 5" "send_ok sock 6"
  shows "go_through_state_machine_diag sock =
     (case reads_status sock 6 of None \<Rightarrow> False | Some s3 \<Rightarrow> s3 AND 0x0627 = 0x0627,
      exchanges sock [statusword_request, controlword_packet 0x0006, statusword_request,
        controlword_packet 0x0007, statusword_request, controlword_packet 0x000F,
        statusword_request])"
proof -
  define a where "a = exchanged sock statusword_request"
  define b where "b = exchanged a (controlword_packet 0x0006)"
  define c where "c = exchanged b statusword_request"
  define d where "d = exchanged c (controlword_packet 0x0007)"
  define e where "e = exchanged d statusword_request"
  define f where "f = exchanged e (controlword_packet 0x000F)"
  define g where "g = exchanged f statusword_request"
  have oks: "send_ok sock 0" "send_ok a 0" "send_ok b 0" "send_ok c 0" "send_ok d 0"
    "send_ok e 0" "send_ok f 0"
    using ok reads_status_send_ok [OF r0]
    by (simp_all add: a_def b_def c_def d_def e_def f_def eval_nat_numeral)
  have last: "reads_status f 0 = reads_status sock 6"
    by (simp add: a_def b_def c_def d_def e_def f_def eval_nat_numeral)
  have steps: "read_statusword_diag sock = (Some s0, a)"
    "snd (write_controlword_diag a 0x0006) = b" "snd (read_statusword_diag b) = c"
    "snd (write_controlword_diag c 0x0007) = d" "snd (read_statusword_diag d) = e"
    "snd (write_controlword_diag e 0x000F) = f"
    "read_statusword_diag f = (reads_status sock 6, g)"
    by (simp_all add: read_statusword_diag_sent [OF oks(1)] write_controlword_diag_sent [OF oks(2)]
        read_statusword_diag_sent [OF oks(3)] write_controlword_diag_sent [OF oks(4)]
        read_statusword_diag_sent [OF oks(5)] write_controlword_diag_sent [OF oks(6)]
        read_statusword_diag_sent [OF oks(7)] r0 last
        a_def [symmetric] b_def [symmetric] c_def [symmetric] d_def [symmetric]
        e_def [symmetric] f_def [symmetric] g_def [symmetric])
  have g: "g = exchanges sock [statusword_request, controlword_packet 0x0006, statusword_request,
        controlword_packet 0x0007, statusword_request, controlword_packet 0x000F,
        statusword_request]"
    by (simp add: a_def b_def c_def d_def e_def f_def g_def exchanged_exchanges)
  show ?thesis
    unfolding go_through_state_machine_diag_def case_prod_unfold Let_def
    by (simp add: steps g [symmetric] split: option.splits)
qed

lemma decode_operation_enabled:
  "(decode_statusword_state s = STATE_OPERATION_ENABLED) = (s AND 0x006F = 0x0027)"
  using mask_6F_27 [of s] by (auto simp add: decode_statusword_state_def)

lemma controlword_writes_steps:
  "controlword_writes (xs @ [statusword_request, controlword_packet 0x0006, statusword_request])
     = controlword_writes xs @ [0x0006]"
  by (simp add: controlword_writes_def is_controlword_write_def statusword_request_def
      controlword_packet_def)

text \<open>
  Claim C2, as amended. For a mocked axis whose statusword reads start at \<open>0x0040\<close> and are
  then fed \<open>0x0021\<close> and \<open>0x0023\<close> after the first two controlword writes,
  \<open>go_through_state_machine\<close> of \<open>enhanced_unit_test_v6.py\<close> returns \<open>True\<close> exactly when
  the statusword \<open>s\<close> read after the third write has \<open>(s & 0x006F) == 0x0027\<close>, which is
  exactly when it classifies as Operation Enabled: \<open>0x0027\<close> alone counts as success. It
  returns \<open>False\<close> on every other statusword and raises \<open>TypeError\<close> when that read
  fails. \<open>go_through_state_machine\<close> of \<open>diag.py\<close> returns \<open>True\<close> exactly when the last
  statusword has \<open>(s & 0x0627) == 0x0627\<close> instead.
\<close>

theorem bring_up_end_to_end:
  assumes "reads_status sock 0 = Some s0" and "s0 AND 0x004F = 0x0040"
    and "send_ok sock 1" and "reads_status sock 2 = Some s1" and "s1 AND 0x006F = 0x0021"
    and "send_ok sock 3" and "reads_status sock 4 = Some s2" and "s2 AND 0x006F = 0x0023"
    and "send_ok sock 5" and "send_ok sock 6"
  shows "fst (go_through_state_machine_v6 sock) =
           (case reads_status sock 6 of
              None \<Rightarrow> Inl TypeError
            | Some s3 \<Rightarrow> Inr (s3 AND 0x006F = 0x0027))
         \<and> fst (go_through_state_machine_diag sock) =
           (case reads_status sock 6 of
              None \<Rightarrow> False
            | Some s3 \<Rightarrow> s3 AND 0x0627 = 0x0627)
         \<and> (decode_statusword_state s = STATE_OPERATION_ENABLED) = (s AND 0x006F = 0x0027)"
proof -
  have oks: "send_ok sock 2" "send_ok sock 4"
    using assms(4,7) by (simp_all add: reads_status_send_ok)
  have v6: "fst (go_through_state_machine_v6 sock) =
           (case reads_status sock 6 of
              None \<Rightarrow> Inl TypeError
            | Some s3 \<Rightarrow> Inr (s3 AND 0x006F = 0x0027))"
    using assms(4,5,7,8)
    by (simp add: go_v6_steps [OF assms(1,2,3) oks(1) assms(6) oks(2) assms(9,10)])
  have diag: "fst (go_through_state_machine_diag sock) =
           (case reads_status sock 6 of
              None \<Rightarrow> False
            | Some s3 \<Rightarrow> s3 AND 0x0627 = 0x0627)"
    by (simp add: go_diag_steps [OF assms(1,3) oks(1) assms(6) oks(2) assms(9,10)])
  from v6 diag decode_operation_enabled [of s] show ?thesis by blast
qed

theorem bring_up_end_to_end_witness:
  "fst (go_through_state_machine_v6 bring_up_peer) = Inr True
   \<and> fst (go_through_state_machine_diag bring_up_peer) = False
   \<and> decode_statusword_state 0x0027 = STATE_OPERATION_ENABLED
   \<and> fst (go_through_state_machine_v6 (bring_up_peer_to 0x0008)) = Inr False
   \<and> fst (go_through_state_machine_v6 (bring_up_peer_to 0x0627)) = Inr True
   \<and> fst (go_through_state_machine_diag (bring_up_peer_to 0x0627)) = True"
proof -
  have p: "bring_up_peer = bring_up_peer_to 0x0027"
    by (simp add: bring_up_peer_def bring_up_peer_to_def)
  have a: "reads_status (bring_up_peer_to f) 0 = Some 0x0040" "(0x0040::int) AND 0x004F = 0x0040"
    "send_ok (bring_up_peer_to f) 1" "reads_status (bring_up_peer_to f) 2 = Some 0x0021"
    "(0x0021::int) AND 0x006F = 0x0021"
    "send_ok (bring_up_peer_to f) 3" "reads_status (bring_up_peer_to f) 4 = Some 0x0023"
    "(0x0023::int) AND 0x006F = 0x0023"
    "send_ok (bring_up_peer_to f) 5" "send_ok (bring_up_peer_to f) 6" for f
    by (simp_all add: bring_up_peer_to_def peer_defs)
  have r: "reads_status (bring_up_peer_to 0x0027) 6 = Some 0x0027"
    "reads_status (bring_up_peer_to 0x0008) 6 = Some 0x0008"
    "reads_status (bring_up_peer_to 0x0627) 6 = Some 0x0627"
    by (simp_all add: bring_up_peer_to_def peer_defs)
  from bring_up_end_to_end [OF a, of "0x0027" "0x0027"]
    bring_up_end_to_end [OF a, of "0x0008" "0x0027"]
    bring_up_end_to_end [OF a, of "0x0627" "0x0027"]
  show ?thesis by (simp add: p r)
qed

text \<open>
  Claim C2 as stated fails for \<open>go_through_state_machine\<close> of \<open>diag.py\<close>: on the scenario's
  statusword sequence it returns \<open>False\<close>, because \<open>0x0027\<close> has bits 9 and 10 clear.
\<close>

theorem bring_up_diag_counterexample:
  "fst (go_through_state_machine_diag bring_up_peer) = False"
  by (simp add: go_through_state_machine_diag_def bring_up_peer_def peer_defs
      read_statusword_diag_def write_controlword_diag_def transact_def bytearray_def)

text \<open>
  Claim C4, as amended. Started in Switch On Disabled on a socket whose sends succeed,
  \<open>go_through_state_machine\<close> of \<open>enhanced_unit_test_v6.py\<close> writes the controlword
  \<open>0x0006\<close> and reads the statusword once; it writes \<open>0x0007\<close> only if that read shows
  Ready To Switch On, and after one more read \<open>0x000F\<close> only if that read shows Switched
  On. A read that shows another state ends the function with \<open>False\<close> and without a
  further write; a read that fails ends it with \<open>TypeError\<close>. So against a peer that stays
  in Ready To Switch On it writes \<open>0x0006\<close> and \<open>0x0007\<close> only and returns \<open>False\<close>.
  \<open>go_through_state_machine\<close> of \<open>diag.py\<close> issues the three writes whatever the
  statuswords after the first are, and returns \<open>True\<close> exactly when the last statusword
  has all bits of \<open>0x0627\<close>.
\<close>

theorem bring_up_controlword_sequence:
  assumes "reads_status sock 0 = Some s0"
    and "send_ok sock 1" and "send_ok sock 2" and "send_ok sock 3"
    and "send_ok sock 4" and "send_ok sock 5" and "send_ok sock 6"
  shows "(s0 AND 0x004F = 0x0040 \<longrightarrow>
            go_through_state_machine_v6 sock =
              (case reads_status sock 2 of
                 None \<Rightarrow>
                   (Inl TypeError,
                    exchanges sock [statusword_request, controlword_packet 0x0006,
                      statusword_request])
               | Some s1 \<Rightarrow>
                   if s1 AND 0x006F \<noteq> 0x0021
                   then (Inr False,
                         exchanges sock [statusword_request, controlword_packet 0x0006,
                           statusword_request])
                   else
                     (case reads_status sock 4 of
                        None \<Rightarrow>
                          (Inl TypeError,
                           exchanges sock [statusword_request, controlword_packet 0x0006,
                             statusword_request, controlword_packet 0x0007, statusword_request])
                      | Some s2 \<Rightarrow>
                          if s2 AND 0x006F \<noteq> 0x0023
                          then (Inr False,
                                exchanges sock [statusword_request, controlword_packet 0x0006,
                                  statusword_request, controlword_packet 0x0007,
                                  statusword_request])
                          else
                            (case reads_status sock 6 of
                               None \<Rightarrow> Inl TypeError
                             | Some s3 \<Rightarrow> Inr (s3 AND 0x006F = 0x0027),
                             exchanges sock [statusword_request, controlword_packet 0x0006,
                               statusword_request, controlword_packet 0x0007, statusword_request,
                               controlword_packet 0x000F, statusword_request])))
            \<and> controlword_writes (sent (snd (go_through_state_machine_v6 sock))) =
                controlword_writes (sent sock) @
                  (case reads_status sock 2 of
                     None \<Rightarrow> [0x0006]
                   | Some s1 \<Rightarrow>
                       if s1 AND 0x006F \<noteq> 0x0021 then [0x0006]
                       else
                         (case reads_status sock 4 of
                            None \<Rightarrow> [0x0006, 0x0007]
                          | Some s2 \<Rightarrow>
                              if s2 AND 0x006F \<noteq> 0x0023 then [0x0006, 0x0007]
                              else [0x0006, 0x0007, 0x000F])))
         \<and> go_through_state_machine_diag sock =
             (case reads_status sock 6 of
                None \<Rightarrow> False
              | Some s3 \<Rightarrow> s3 AND 0x0627 = 0x0627,
              exchanges sock [statusword_request, controlword_packet 0x0006, statusword_request,
                controlword_packet 0x0007, statusword_request, controlword_packet 0x000F,
                statusword_request])
         \<and> controlword_writes (sent (snd (go_through_state_machine_diag sock))) =
             controlword_writes (sent sock) @ [0x0006, 0x0007, 0x000F]"
proof -
  note diag = go_diag_steps [OF assms]
  have d2: "controlword_writes (sent (snd (go_through_state_machine_diag sock))) =
             controlword_writes (sent sock) @ [0x0006, 0x0007, 0x000F]"
    by (simp add: diag controlword_writes_bring_up)
  have v6: "go_through_state_machine_v6 sock =
              (case reads_status sock 2 of
                 None \<Rightarrow>
                   (Inl TypeError,
                    exchanges sock [statusword_request, controlword_packet 0x0006,
                      statusword_request])
               | Some s1 \<Rightarrow>
                   if s1 AND 0x006F \<noteq> 0x0021
                   then (Inr False,
                         exchanges sock [statusword_request, controlword_packet 0x0006,
                           statusword_request])
                   else
                     (case reads_status sock 4 of
                        None \<Rightarrow>
                          (Inl TypeError,
                           exchanges sock [statusword_request, controlword_packet 0x0006,
                             statusword_request, controlword_packet 0x0007, statusword_request])
                      | Some s2 \<Rightarrow>
                          if s2 AND 0x006F \<noteq> 0x0023
                          then (Inr False,
                                exchanges sock [statusword_request, controlword_packet 0x0006,
                                  statusword_request, controlword_packet 0x0007,
                                  statusword_request])
                          else
                            (case reads_status sock 6 of
                               None \<Rightarrow> Inl TypeError
                             | Some s3 \<Rightarrow> Inr (s3 AND 0x006F = 0x0027),
                             exchanges sock [statusword_request, controlword_packet 0x0006,
                               statusword_request, controlword_packet 0x0007, statusword_request,
                               controlword_packet 0x000F, statusword_request])))"
    if "s0 AND 0x004F = 0x0040"
    by (rule go_v6_steps [OF assms(1) that assms(2-7)])
  have w6: "controlword_writes (sent (snd (go_through_state_machine_v6 sock))) =
                controlword_writes (sent sock) @
                  (case reads_status sock 2 of
                     None \<Rightarrow> [0x0006]
                   | Some s1 \<Rightarrow>
                       if s1 AND 0x006F \<noteq> 0x0021 then [0x0006]
                       else
                         (case reads_status sock 4 of
                            None \<Rightarrow> [0x0006, 0x0007]
                          | Some s2 \<Rightarrow>
                              if s2 AND 0x006F \<noteq> 0x0023 then [0x0006, 0x0007]
                              else [0x0006, 0x0007, 0x000F]))"
    if "s0 AND 0x004F = 0x0040"
    unfolding v6 [OF that]
    by (simp add: controlword_writes_bring_up controlword_writes_steps split: option.splits)
  from v6 w6 diag d2 show ?thesis by blast
qed

theorem bring_up_controlword_sequence_witness:
  "go_through_state_machine_v6 bring_up_peer =
     (Inr True,
      exchanges bring_up_peer [statusword_request, controlword_packet 0x0006, statusword_request,
        controlword_packet 0x0007, statusword_request, controlword_packet 0x000F,
        statusword_request])
   \<and> controlword_writes (sent (snd (go_through_state_machine_v6 bring_up_peer))) =
        [0x0006, 0x0007, 0x000F]
   \<and> go_through_state_machine_v6 ready_peer =
     (Inr False,
      exchanges ready_peer [statusword_request, controlword_packet 0x0006, statusword_request,
        controlword_packet 0x0007, statusword_request])
   \<and> controlword_writes (sent (snd (go_through_state_machine_v6 ready_peer))) = [0x0006, 0x0007]
   \<and> go_through_state_machine_v6 disabled_peer =
     (Inr False,
      exchanges disabled_peer [statusword_request, controlword_packet 0x0006, statusword_request])
   \<and> controlword_writes (sent (snd (go_through_state_machine_v6 disabled_peer))) = [0x0006]
   \<and> controlword_writes (sent (snd (go_through_state_machine_diag disabled_peer))) =
        [0x0006, 0x0007, 0x000F]
   \<and> fst (go_through_state_machine_diag disabled_peer) = False"
proof -
  have a: "reads_status bring_up_peer 0 = Some 0x0040"
    "send_ok bring_up_peer 1" "send_ok bring_up_peer 2" "send_ok bring_up_peer 3"
    "send_ok bring_up_peer 4" "send_ok bring_up_peer 5" "send_ok bring_up_peer 6"
    by (simp_all add: bring_up_peer_def peer_defs)
  have a': "reads_status bring_up_peer 2 = Some 0x0021" "reads_status bring_up_peer 4 = Some 0x0023"
    "reads_status bring_up_peer 6 = Some 0x0027"
    by (simp_all add: bring_up_peer_def peer_defs)
  have b: "reads_status ready_peer 0 = Some 0x0040"
    "send_ok ready_peer 1" "send_ok ready_peer 2" "send_ok ready_peer 3"
    "send_ok ready_peer 4" "send_ok ready_peer 5" "send_ok ready_peer 6"
    by (simp_all add: ready_peer_def peer_defs)
  have b': "reads_status ready_peer 2 = Some 0x0021" "reads_status ready_peer 4 = Some 0x0021"
    by (simp_all add: ready_peer_def peer_defs)
  have d: "reads_status disabled_peer 0 = Some 0x0040"
    "send_ok disabled_peer 1" "send_ok disabled_peer 2" "send_ok disabled_peer 3"
    "send_ok disabled_peer 4" "send_ok disabled_peer 5" "send_ok disabled_peer 6"
    by (simp_all add: disabled_peer_def peer_defs)
  have d': "reads_status disabled_peer 2 = Some 0x0040" "reads_status disabled_peer 6 = Some 0x0040"
    by (simp_all add: disabled_peer_def peer_defs)
  have c: "controlword_writes (sent bring_up_peer) = []" "controlword_writes (sent ready_peer) = []"
    "controlword_writes (sent disabled_peer) = []"
    by (simp_all add: bring_up_peer_def ready_peer_def disabled_peer_def mock_def
        controlword_writes_def)
  have m: "(0x0040::int) AND 0x004F = 0x0040" by simp
  note A = bring_up_controlword_sequence [OF a, unfolded a' c, simplified]
  note B = bring_up_controlword_sequence [OF b, unfolded b' c, simplified]
  note D = bring_up_controlword_sequence [OF d, unfolded d' c, simplified]
  from A have 1: "go_through_state_machine_v6 bring_up_peer =
     (Inr True,
      exchanges bring_up_peer [statusword_request, controlword_packet 0x0006, statusword_request,
        controlword_packet 0x0007, statusword_request, controlword_packet 0x000F,
        statusword_request])"
    "controlword_writes (sent (snd (go_through_state_machine_v6 bring_up_peer))) =
        [0x0006, 0x0007, 0x000F]"
    by blast+
  from B have 2: "go_through_state_machine_v6 ready_peer =
     (Inr False,
      exchanges ready_peer [statusword_request, controlword_packet 0x0006, statusword_request,
        controlword_packet 0x0007, statusword_request])"
    "controlword_writes (sent (snd (go_through_state_machine_v6 ready_peer))) = [0x0006, 0x0007]"
    by blast+
  from D have 3: "go_through_state_machine_v6 disabled_peer =
     (Inr False,
      exchanges disabled_peer [statusword_request, controlword_packet 0x0006, statusword_request])"
    "controlword_writes (sent (snd (go_through_state_machine_v6 disabled_peer))) = [0x0006]"
    by blast+
  from D have 4: "controlword_writes (sent (snd (go_through_state_machine_diag disabled_peer))) =
        [0x0006, 0x0007, 0x000F]"
    by blast
  from D have "go_through_state_machine_diag disabled_peer =
     (False,
      exchanges disabled_peer [statusword_request, controlword_packet 0x0006, statusword_request,
        controlword_packet 0x0007, statusword_request, controlword_packet 0x000F,
        statusword_request])"
    by blast
  then have 5: "fst (go_through_state_machine_diag disabled_peer) = False"
    by simp
  from 1 2 3 4 5 show ?thesis by blast
qed

text \<open>
  Claim C4 as stated fails. Against a peer whose statusword stays \<open>0x0040\<close>,
  \<open>go_through_state_machine\<close> of \<open>diag.py\<close> still issues all three writes: no check of the
  state stands between them. And the result of the function of
  \<open>enhanced_unit_test_v6.py\<close> for a peer that stays in Ready To Switch On is the \<open>False\<close>
  it also returns when the first read fails: there is no separate time-out error.
\<close>

theorem bring_up_recheck_counterexample:
  "controlword_writes (sent (snd (go_through_state_machine_diag disabled_peer))) =
     [0x0006, 0x0007, 0x000F]
   \<and> fst (go_through_state_machine_v6 ready_peer) = Inr False
   \<and> fst (go_through_state_machine_v6 (mock [] RecvRaises)) = Inr False"
proof -
  have b: "reads_status ready_peer 0 = Some 0x0040" "(0x0040::int) AND 0x004F = 0x0040"
    "send_ok ready_peer 1" "reads_status ready_peer 2 = Some 0x0021"
    "(0x0021::int) AND 0x006F = 0x0021"
    "send_ok ready_peer 3" "reads_status ready_peer 4 = Some 0x0021"
    by (simp_all add: ready_peer_def peer_defs)
  have d: "reads_status disabled_peer 0 = Some 0x0040"
    "send_ok disabled_peer 1" "send_ok disabled_peer 2" "send_ok disabled_peer 3"
    "send_ok disabled_peer 4" "send_ok disabled_peer 5"
    "reads_status disabled_peer 6 = Some 0x0040"
    by (simp_all add: disabled_peer_def peer_defs)
  have "controlword_writes (sent (snd (go_through_state_machine_diag disabled_peer))) =
     [0x0006, 0x0007, 0x000F]"
    by (simp add: go_diag_sent(2) [OF d] controlword_writes_bring_up)
      (simp add: disabled_peer_def mock_def controlword_writes_def)
  moreover have "fst (go_through_state_machine_v6 ready_peer) = Inr False"
    by (rule go_v6_stays_ready(1) [OF b b(5)])
  moreover have "fst (go_through_state_machine_v6 (mock [] RecvRaises)) = Inr False"
    by (simp add: go_through_state_machine_v6_def read_statusword_v6_def transact_def
        bytearray_def mock_def feed_def)
  ultimately show ?thesis by simp
qed

section \<open>Exception responses to writes\<close>

text \<open>
  Claim C5, as amended. For every response whose function-code byte (offset 7) has bit 7
  set, \<open>write_object\<close> of \<open>enhanced_unit_test_v6.py\<close> returns \<open>False\<close>, never \<open>True\<close>;
  the exception code in the next byte is not part of the result. \<open>write_controlword\<close> and
  \<open>write_object\<close> of \<open>diag.py\<close> do not look at the response and return \<open>True\<close> whenever
  \<open>send\<close> and \<open>recv\<close> return.
\<close>

theorem exception_response_to_write:
  assumes "script sock (calls sock) = Recv response"
  shows "(7 < length response \<and> uint (response ! 7) AND 0x80 \<noteq> 0
            \<longrightarrow> fst (write_object_v6 sock index sub_index val sz) = False)
         \<and> fst (write_controlword_diag sock cw) = True
         \<and> (0 \<le> sub_index \<and> sub_index < 256 \<and> 0 \<le> sz \<and> sz \<le> 242
            \<longrightarrow> fst (write_object_diag sock index sub_index val sz) = True)"
proof -
  have v6: "fst (write_object_v6 sock index sub_index val sz) = False"
    if "7 < length response" "uint (response ! 7) AND 0x80 \<noteq> 0"
    using that assms
    by (simp add: write_object_v6_def transact_def split: option.splits)
  have cw: "fst (write_controlword_diag sock cw) = True"
    using assms by (simp add: write_controlword_diag_def controlword_packet_bytearray transact_def)
  have obj: "fst (write_object_diag sock index sub_index val sz) = True"
    if "0 \<le> sub_index" "sub_index < 256" "0 \<le> sz" "sz \<le> 242"
  proof -
    have "list_all (\<lambda>x. 0 \<le> x \<and> x < 256) (value_bytes val sz)"
      using and_FF_range by (simp add: value_bytes_def list_all_iff)
    then have "bytearray (value_bytes val sz) \<noteq> None"
      by (simp add: bytearray_def)
    moreover have "bytearray [0x00, 0x0F, 0x00, 0x00, 0x00, 0x0D + sz, 0x00, 0x2B, 0x0D, 0x01, 0x00,
                      0x00, drop_bit 8 index AND 0xFF, index AND 0xFF, sub_index,
                      0x00, 0x00, 0x00, sz] \<noteq> None"
      using that and_FF_range by (simp add: bytearray_def)
    ultimately show ?thesis
      using assms by (auto simp add: write_object_diag_def transact_def)
  qed
  from v6 cw obj show ?thesis by blast
qed

theorem exception_response_to_write_witness:
  "fst (write_object_v6 (mock [Recv modbus_exception_response] RecvRaises) 0x607A 0 1000 4) = False
   \<and> fst (write_controlword_diag (mock [Recv modbus_exception_response] RecvRaises) 0x0006) = True
   \<and> fst (write_object_diag (mock [Recv modbus_exception_response] RecvRaises) 0x607A 0 1000 4) = True"
proof -
  let ?s = "mock [Recv modbus_exception_response] RecvRaises"
  have 1: "script ?s (calls ?s) = Recv modbus_exception_response"
    by (simp add: mock_def feed_def)
  have 2: "7 < length modbus_exception_response
        \<and> uint (modbus_exception_response ! 7) AND 0x80 \<noteq> 0"
    by (simp add: modbus_exception_response_def)
  from exception_response_to_write [OF 1, of "0x607A" 0 1000 4 "0x0006"] 2
  show ?thesis by simp
qed

text \<open>
  Claim C5 as stated fails. \<open>write_controlword\<close> of \<open>diag.py\<close> reports success for an
  exception response, and \<open>write_object\<close> of \<open>enhanced_unit_test_v6.py\<close> gives the one
  result \<open>False\<close> for exception code 1, for exception code 2 and for a time-out: the
  exception code is not carried.
\<close>

theorem exception_response_counterexample:
  "fst (write_controlword_diag (mock [Recv modbus_exception_response] RecvRaises) 0x0006) = True
   \<and> fst (write_object_v6
          (mock [Recv [0x00, 0x0F, 0x00, 0x00, 0x00, 0x03, 0x00, 0xAB, 0x01]] RecvRaises)
          0x607A 0 1000 4) = False
   \<and> fst (write_object_v6
          (mock [Recv [0x00, 0x0F, 0x00, 0x00, 0x00, 0x03, 0x00, 0xAB, 0x02]] RecvRaises)
          0x607A 0 1000 4) = False
   \<and> fst (write_object_v6 (mock [RecvRaises] RecvRaises) 0x607A 0 1000 4) = False"
  by (simp add: write_controlword_diag_def write_object_v6_def transact_def bytearray_def
      value_bytes_def mock_def feed_def modbus_exception_response_def)

section \<open>The movement tests of \<open>unit_test2.py\<close>\<close>

lemma sends_succeed_exchanges [simp]: "sends_succeed (exchanges s ps) = sends_succeed s"
  by (simp add: sends_succeed_def)

lemma send_ok_all: "sends_succeed s \<Longrightarrow> send_ok s k"
  by (simp add: send_ok_def sends_succeed_def)

lemma read_statusword_diag_exchanges:
  assumes "sends_succeed s"
  shows "read_statusword_diag s = (reads_status s 0, exchanges s [statusword_request])"
  using read_statusword_diag_sent [OF send_ok_all [OF assms]]
  by (simp add: exchanged_exchanges)

lemma write_controlword_diag_exchanges:
  assumes "sends_succeed s"
  shows "snd (write_controlword_diag s val) = exchanges s [controlword_packet val]"
  using write_controlword_diag_sent [OF send_ok_all [OF assms]]
  by (simp add: exchanged_exchanges)

lemma value_bytes_range: "list_all (\<lambda>x. 0 \<le> x \<and> x < 256) (value_bytes val sz)"
  using and_FF_range by (simp add: value_bytes_def list_all_iff)

lemma bytearray_append:
  "bytearray xs = Some a \<Longrightarrow> bytearray ys = Some b \<Longrightarrow> a @ b = map word_of_int (xs @ ys)"
  by (auto simp add: bytearray_def split: if_splits)

lemma write_object_diag_exchanges:
  assumes "sends_succeed s"
    and "0 \<le> sub_index" "sub_index < 256" "0 \<le> sz" "sz \<le> 242"
  shows "snd (write_object_diag s index sub_index val sz)
           = exchanges s [object_write_packet index sub_index val sz]"
proof -
  let ?hdr = "[0x00, 0x0F, 0x00, 0x00, 0x00, 0x0D + sz, 0x00, 0x2B, 0x0D, 0x01, 0x00,
                      0x00, drop_bit 8 index AND 0xFF, index AND 0xFF, sub_index,
                      0x00, 0x00, 0x00, sz]"
  have h: "bytearray ?hdr = Some (map word_of_int ?hdr)"
    using assms(2-5) and_FF_range by (intro bytearray_Some) simp
  have v: "bytearray (value_bytes val sz) = Some (map word_of_int (value_bytes val sz))"
    by (rule bytearray_Some [OF value_bytes_range])
  have "send_ok s 0" by (rule send_ok_all [OF assms(1)])
  then show ?thesis
    unfolding write_object_diag_def h v
    by (simp add: transact_sent exchanged_exchanges object_write_packet_def
        split: exchange.splits)
qed

lemma both_reached_exchanges [simp]:
  "both_reached (exchanges y ps) (exchanges z ps) = (\<lambda>j. both_reached y z (length ps + j))"
  by (rule ext) (simp add: both_reached_def)

lemma rounds_le: "rounds n p \<le> n"
  by (induction n arbitrary: p) simp_all

lemma rounds_pos: "0 < n \<Longrightarrow> 0 < rounds n p"
  by (cases n) simp_all

lemma rounds_never: "(\<And>j. j < n \<Longrightarrow> \<not> p j) \<Longrightarrow> rounds n p = n"
  by (induction n arbitrary: p) simp_all

lemma rounds_left_early: "rounds n p < n \<Longrightarrow> p (rounds n p - 1)"
proof (induction n arbitrary: p)
  case 0
  then show ?case by simp
next
  case (Suc n)
  show ?case
  proof (cases "p 0")
    case True
    then show ?thesis by simp
  next
    case False
    with Suc.prems have "rounds n (\<lambda>j. p (Suc j)) < n" by simp
    from Suc.IH [OF this] False rounds_pos [of n "\<lambda>j. p (Suc j)"] \<open>rounds n (\<lambda>j. p (Suc j)) < n\<close>
    show ?thesis by (cases "rounds n (\<lambda>j. p (Suc j))") simp_all
  qed
qed


lemma controlword_writes_replicate_request [simp]:
  "filter is_controlword_write (replicate m statusword_request) = []"
  by (simp add: is_controlword_write_def statusword_request_def)

lemma controlword_writes_sync_traffic:
  "controlword_writes (xs @ sync_traffic m n)
     = controlword_writes xs @ [0x001F, 0x000F, 0x001F, 0x000F]"
  by (simp add: controlword_writes_def sync_traffic_def is_controlword_write_def
      object_write_packet_def controlword_packet_def value_bytes_def)


lemma both_reached_fault_peer: "both_reached s fault_peer k = False"
  by (simp add: both_reached_def target_reached_def fault_peer_def peer_defs)

lemma both_reached_reached_peer: "both_reached reached_peer reached_peer k = True"
  by (simp add: both_reached_def target_reached_def reached_peer_def peer_defs)

lemma sends_succeed_peers: "sends_succeed reached_peer" "sends_succeed fault_peer"
  by (simp_all add: sends_succeed_def reached_peer_def fault_peer_def mock_def feed_def)

lemma exchanges_both_simps [simp]:
  "y_sock (exchanges_both w ps) = exchanges (y_sock w) ps"
  "z_sock (exchanges_both w ps) = exchanges (z_sock w) ps"
  "sent_order (exchanges_both w ps)
     = sent_order w @ concat (map (\<lambda>p. [(Y_axis, p), (Z_axis, p)]) ps)"
  by (simp_all add: exchanges_both_def)

lemma exchanges_both_Nil [simp]: "exchanges_both w [] = w"
  by (simp add: exchanges_both_def)

lemma exchanges_both_exchanges_both [simp]:
  "exchanges_both (exchanges_both w ps) qs = exchanges_both w (ps @ qs)"
  by (simp add: exchanges_both_def)

lemma call_on_both:
  assumes y: "snd (call (y_sock w)) = exchanges (y_sock w) [p]"
    and z: "snd (call (z_sock w)) = exchanges (z_sock w) [p]"
  shows "snd (call_on Z_axis call (snd (call_on Y_axis call w))) = exchanges_both w [p]"
  using y z
  by (simp add: call_on_def Let_def case_prod_unfold exchanges_both_def)

lemma write_object_both:
  assumes "sends_succeed (y_sock w)" "sends_succeed (z_sock w)"
    and "0 \<le> sub_index" "sub_index < 256" "0 \<le> sz" "sz \<le> 242"
  shows "snd (call_on Z_axis (\<lambda>sock. write_object_diag sock index sub_index val sz)
           (snd (call_on Y_axis (\<lambda>sock. write_object_diag sock index sub_index val sz) w)))
         = exchanges_both w [object_write_packet index sub_index val sz]"
  by (rule call_on_both)
    (simp_all add: write_object_diag_exchanges [OF assms(1) assms(3-6)]
      write_object_diag_exchanges [OF assms(2) assms(3-6)])

lemma write_controlword_both:
  assumes "sends_succeed (y_sock w)" "sends_succeed (z_sock w)"
  shows "snd (call_on Z_axis (\<lambda>sock. write_controlword_diag sock val)
           (snd (call_on Y_axis (\<lambda>sock. write_controlword_diag sock val) w)))
         = exchanges_both w [controlword_packet val]"
  by (rule call_on_both)
    (simp_all add: write_controlword_diag_exchanges [OF assms(1)]
      write_controlword_diag_exchanges [OF assms(2)])

lemma read_statusword_both:
  assumes "sends_succeed (y_sock w)" "sends_succeed (z_sock w)"
  shows "call_on Y_axis read_statusword_diag w
           = (reads_status (y_sock w) 0,
              w\<lparr>y_sock := exchanges (y_sock w) [statusword_request],
                sent_order := sent_order w @ [(Y_axis, statusword_request)]\<rparr>)"
    and "call_on Z_axis read_statusword_diag
           (w\<lparr>y_sock := exchanges (y_sock w) [statusword_request],
              sent_order := sent_order w @ [(Y_axis, statusword_request)]\<rparr>)
           = (reads_status (z_sock w) 0, exchanges_both w [statusword_request])"
  by (simp_all add: call_on_def Let_def read_statusword_diag_exchanges [OF assms(1)]
      read_statusword_diag_exchanges [OF assms(2)] exchanges_both_def)

lemma wait_both_reached_exchanges:
  assumes "sends_succeed (y_sock w)" "sends_succeed (z_sock w)"
  shows "wait_both_reached n w =
           exchanges_both w
             (replicate (rounds n (both_reached (y_sock w) (z_sock w))) statusword_request)"
  using assms
proof (induction n arbitrary: w)
  case 0
  then show ?case by simp
next
  case (Suc n)
  let ?w = "exchanges_both w [statusword_request]"
  have ok: "sends_succeed (y_sock ?w)" "sends_succeed (z_sock ?w)"
    using Suc.prems by simp_all
  show ?case
    using Suc.IH [OF ok]
    by (simp add: read_statusword_both [OF Suc.prems] both_reached_def)
qed

lemma test_both_axes_in_sync_traffic:
  assumes y: "sends_succeed (y_sock w)" and z: "sends_succeed (z_sock w)"
  shows "test_both_axes_in_sync w =
     (let m = rounds 20 (\<lambda>j. both_reached (y_sock w) (z_sock w) (5 + j));
          n = rounds 20 (\<lambda>j. both_reached (y_sock w) (z_sock w) (8 + m + j))
      in exchanges_both w (sync_traffic m n))"
proof -
  define m where "m = rounds 20 (\<lambda>j. both_reached (y_sock w) (z_sock w) (5 + j))"
  define n where "n = rounds 20 (\<lambda>j. both_reached (y_sock w) (z_sock w) (8 + m + j))"
  define w2 where "w2 = exchanges_both w [object_write_packet 0x6060 0 1 1]"
  define w4 where "w4 = exchanges_both w2 [object_write_packet 0x607A 0 1000 4]"
  define w6 where "w6 = exchanges_both w4 [object_write_packet 0x6081 0 1000 4]"
  define w8 where "w8 = exchanges_both w6 [object_write_packet 0x6083 0 2000 4]"
  define w10 where "w10 = exchanges_both w8 [controlword_packet 0x001F]"
  define w11 where "w11 = exchanges_both w10 (replicate m statusword_request)"
  define w13 where "w13 = exchanges_both w11 [controlword_packet 0x000F]"
  define w15 where "w15 = exchanges_both w13 [object_write_packet 0x607A 0 0 4]"
  define w17 where "w17 = exchanges_both w15 [controlword_packet 0x001F]"
  define w18 where "w18 = exchanges_both w17 (replicate n statusword_request)"
  define w20 where "w20 = exchanges_both w18 [controlword_packet 0x000F]"
  note defs = w2_def w4_def w6_def w8_def w10_def w11_def w13_def w15_def w17_def w18_def
    w20_def
  have ok: "sends_succeed (y_sock w2)" "sends_succeed (z_sock w2)"
    "sends_succeed (y_sock w4)" "sends_succeed (z_sock w4)"
    "sends_succeed (y_sock w6)" "sends_succeed (z_sock w6)"
    "sends_succeed (y_sock w8)" "sends_succeed (z_sock w8)"
    "sends_succeed (y_sock w10)" "sends_succeed (z_sock w10)"
    "sends_succeed (y_sock w11)" "sends_succeed (z_sock w11)"
    "sends_succeed (y_sock w13)" "sends_succeed (z_sock w13)"
    "sends_succeed (y_sock w15)" "sends_succeed (z_sock w15)"
    "sends_succeed (y_sock w17)" "sends_succeed (z_sock w17)"
    "sends_succeed (y_sock w18)" "sends_succeed (z_sock w18)"
    using y z by (simp_all add: defs)
  have "both_reached (y_sock w10) (z_sock w10)
          = (\<lambda>j. both_reached (y_sock w) (z_sock w) (5 + j))"
    by (rule ext) (simp add: defs both_reached_def eval_nat_numeral)
  then have m10: "rounds 20 (both_reached (y_sock w10) (z_sock w10)) = m"
    by (simp add: m_def)
  have "both_reached (y_sock w17) (z_sock w17)
          = (\<lambda>j. both_reached (y_sock w) (z_sock w) (8 + m + j))"
    by (rule ext) (simp add: defs both_reached_def eval_nat_numeral)
  then have n17: "rounds 20 (both_reached (y_sock w17) (z_sock w17)) = n"
    by (simp add: n_def)
  have s1: "snd (call_on Z_axis (\<lambda>sock. write_object_diag sock 0x6060 0 1 1)
       (snd (call_on Y_axis (\<lambda>sock. write_object_diag sock 0x6060 0 1 1) w))) = w2"
    unfolding w2_def by (rule write_object_both [OF y z]) simp_all
  have s2: "snd (call_on Z_axis (\<lambda>sock. write_object_diag sock 0x607A 0 1000 4)
       (snd (call_on Y_axis (\<lambda>sock. write_object_diag sock 0x607A 0 1000 4) w2))) = w4"
    unfolding w4_def by (rule write_object_both [OF ok(1,2)]) simp_all
  have s3: "snd (call_on Z_axis (\<lambda>sock. write_object_diag sock 0x6081 0 1000 4)
       (snd (call_on Y_axis (\<lambda>sock. write_object_diag sock 0x6081 0 1000 4) w4))) = w6"
    unfolding w6_def by (rule write_object_both [OF ok(3,4)]) simp_all
  have s4: "snd (call_on Z_axis (\<lambda>sock. write_object_diag sock 0x6083 0 2000 4)
       (snd (call_on Y_axis (\<lambda>sock. write_object_diag sock 0x6083 0 2000 4) w6))) = w8"
    unfolding w8_def by (rule write_object_both [OF ok(5,6)]) simp_all
  have s5: "snd (call_on Z_axis (\<lambda>sock. write_controlword_diag sock 0x001F)
       (snd (call_on Y_axis (\<lambda>sock. write_controlword_diag sock 0x001F) w8))) = w10"
    unfolding w10_def by (rule write_controlword_both [OF ok(7,8)])
  have s6: "wait_both_reached 20 w10 = w11"
    unfolding w11_def by (simp only: wait_both_reached_exchanges [OF ok(9,10)] m10)
  have s7: "snd (call_on Z_axis (\<lambda>sock. write_controlword_diag sock 0x000F)
       (snd (call_on Y_axis (\<lambda>sock. write_controlword_diag sock 0x000F) w11))) = w13"
    unfolding w13_def by (rule write_controlword_both [OF ok(11,12)])
  have s8: "snd (call_on Z_axis (\<lambda>sock. write_object_diag sock 0x607A 0 0 4)
       (snd (call_on Y_axis (\<lambda>sock. write_object_diag sock 0x607A 0 0 4) w13))) = w15"
    unfolding w15_def by (rule write_object_both [OF ok(13,14)]) simp_all
  have s9: "snd (call_on Z_axis (\<lambda>sock. write_controlword_diag sock 0x001F)
       (snd (call_on Y_axis (\<lambda>sock. write_controlword_diag sock 0x001F) w15))) = w17"
    unfolding w17_def by (rule write_controlword_both [OF ok(15,16)])
  have s10: "wait_both_reached 20 w17 = w18"
    unfolding w18_def by (simp only: wait_both_reached_exchanges [OF ok(17,18)] n17)
  have s11: "snd (call_on Z_axis (\<lambda>sock. write_controlword_diag sock 0x000F)
       (snd (call_on Y_axis (\<lambda>sock. write_controlword_diag sock 0x000F) w18))) = w20"
    unfolding w20_def by (rule write_controlword_both [OF ok(19,20)])
  note steps = s1 s2 s3 s4 s5 s6 s7 s8 s9 s10 s11
  have "test_both_axes_in_sync w = w20"
    unfolding test_both_axes_in_sync_def case_prod_unfold Let_def
    by (simp only: steps)
  also have "\<dots> = exchanges_both w (sync_traffic m n)"
    by (simp add: defs sync_traffic_def)
  finally show ?thesis by (simp add: Let_def m_def n_def)
qed

lemma sent_order_sync_traffic:
  "concat (map (\<lambda>p. [(Y_axis, p), (Z_axis, p)]) (sync_traffic m n)) =
     [(Y_axis, object_write_packet 0x6060 0 1 1), (Z_axis, object_write_packet 0x6060 0 1 1),
      (Y_axis, object_write_packet 0x607A 0 1000 4), (Z_axis, object_write_packet 0x607A 0 1000 4),
      (Y_axis, object_write_packet 0x6081 0 1000 4), (Z_axis, object_write_packet 0x6081 0 1000 4),
      (Y_axis, object_write_packet 0x6083 0 2000 4), (Z_axis, object_write_packet 0x6083 0 2000 4),
      (Y_axis, controlword_packet 0x001F), (Z_axis, controlword_packet 0x001F)]
     @ concat (replicate m [(Y_axis, statusword_request), (Z_axis, statusword_request)])
     @ [(Y_axis, controlword_packet 0x000F), (Z_axis, controlword_packet 0x000F),
        (Y_axis, object_write_packet 0x607A 0 0 4), (Z_axis, object_write_packet 0x607A 0 0 4),
        (Y_axis, controlword_packet 0x001F), (Z_axis, controlword_packet 0x001F)]
     @ concat (replicate n [(Y_axis, statusword_request), (Z_axis, statusword_request)])
     @ [(Y_axis, controlword_packet 0x000F), (Z_axis, controlword_packet 0x000F)]"
  by (simp add: sync_traffic_def map_replicate)

text \<open>
  Claim C8, as amended. On sockets whose \<open>send\<close> never raises, \<open>test_both_axes_in_sync\<close>
  writes the motion parameters and the start controlword \<open>0x001F\<close> to both axes, Y before
  Z for each of them, before it reads any statusword: the ten packets that open its log are
  these writes, and the first statusword request follows them. Each of its two waits makes
  between 1 and 20 rounds, reads Y and then Z in every round, and is left before the 20th
  round only in a round in which both axes report target reached. It looks at no fault or
  abort signal and has no stop: whatever the statuswords are, each axis is sent the
  controlwords \<open>0x001F\<close>, \<open>0x000F\<close>, \<open>0x001F\<close>, \<open>0x000F\<close>, and the function returns
  nothing.
\<close>

theorem sync_movement_traffic:
  assumes "sends_succeed (y_sock w)" and "sends_succeed (z_sock w)"
  shows "(let m = rounds 20 (\<lambda>j. both_reached (y_sock w) (z_sock w) (5 + j));
              n = rounds 20 (\<lambda>j. both_reached (y_sock w) (z_sock w) (8 + m + j))
          in test_both_axes_in_sync w = exchanges_both w (sync_traffic m n)
             \<and> sent_order (test_both_axes_in_sync w) =
                 sent_order w
                 @ [(Y_axis, object_write_packet 0x6060 0 1 1),
                    (Z_axis, object_write_packet 0x6060 0 1 1),
                    (Y_axis, object_write_packet 0x607A 0 1000 4),
                    (Z_axis, object_write_packet 0x607A 0 1000 4),
                    (Y_axis, object_write_packet 0x6081 0 1000 4),
                    (Z_axis, object_write_packet 0x6081 0 1000 4),
                    (Y_axis, object_write_packet 0x6083 0 2000 4),
                    (Z_axis, object_write_packet 0x6083 0 2000 4),
                    (Y_axis, controlword_packet 0x001F), (Z_axis, controlword_packet 0x001F)]
                 @ concat (replicate m [(Y_axis, statusword_request),
                                        (Z_axis, statusword_request)])
                 @ [(Y_axis, controlword_packet 0x000F), (Z_axis, controlword_packet 0x000F),
                    (Y_axis, object_write_packet 0x607A 0 0 4),
                    (Z_axis, object_write_packet 0x607A 0 0 4),
                    (Y_axis, controlword_packet 0x001F), (Z_axis, controlword_packet 0x001F)]
                 @ concat (replicate n [(Y_axis, statusword_request),
                                        (Z_axis, statusword_request)])
                 @ [(Y_axis, controlword_packet 0x000F), (Z_axis, controlword_packet 0x000F)]
             \<and> 1 \<le> m \<and> m \<le> 20 \<and> 1 \<le> n \<and> n \<le> 20
             \<and> (m < 20 \<longrightarrow> both_reached (y_sock w) (z_sock w) (5 + (m - 1)))
             \<and> (n < 20 \<longrightarrow> both_reached (y_sock w) (z_sock w) (8 + m + (n - 1)))
             \<and> controlword_writes (sent (y_sock (test_both_axes_in_sync w)))
                 = controlword_writes (sent (y_sock w)) @ [0x001F, 0x000F, 0x001F, 0x000F]
             \<and> controlword_writes (sent (z_sock (test_both_axes_in_sync w)))
                 = controlword_writes (sent (z_sock w)) @ [0x001F, 0x000F, 0x001F, 0x000F])"
proof -
  define m where "m = rounds 20 (\<lambda>j. both_reached (y_sock w) (z_sock w) (5 + j))"
  define n where "n = rounds 20 (\<lambda>j. both_reached (y_sock w) (z_sock w) (8 + m + j))"
  have run: "test_both_axes_in_sync w = exchanges_both w (sync_traffic m n)"
    using test_both_axes_in_sync_traffic [OF assms] by (simp add: Let_def m_def n_def)
  have order: "sent_order (test_both_axes_in_sync w) =
                 sent_order w
                 @ [(Y_axis, object_write_packet 0x6060 0 1 1),
                    (Z_axis, object_write_packet 0x6060 0 1 1),
                    (Y_axis, object_write_packet 0x607A 0 1000 4),
                    (Z_axis, object_write_packet 0x607A 0 1000 4),
                    (Y_axis, object_write_packet 0x6081 0 1000 4),
                    (Z_axis, object_write_packet 0x6081 0 1000 4),
                    (Y_axis, object_write_packet 0x6083 0 2000 4),
                    (Z_axis, object_write_packet 0x6083 0 2000 4),
                    (Y_axis, controlword_packet 0x001F), (Z_axis, controlword_packet 0x001F)]
                 @ concat (replicate m [(Y_axis, statusword_request),
                                        (Z_axis, statusword_request)])
                 @ [(Y_axis, controlword_packet 0x000F), (Z_axis, controlword_packet 0x000F),
                    (Y_axis, object_write_packet 0x607A 0 0 4),
                    (Z_axis, object_write_packet 0x607A 0 0 4),
                    (Y_axis, controlword_packet 0x001F), (Z_axis, controlword_packet 0x001F)]
                 @ concat (replicate n [(Y_axis, statusword_request),
                                        (Z_axis, statusword_request)])
                 @ [(Y_axis, controlword_packet 0x000F), (Z_axis, controlword_packet 0x000F)]"
    unfolding run exchanges_both_simps sent_order_sync_traffic ..
  have m: "1 \<le> m" "m \<le> 20"
    using rounds_pos [of 20 "\<lambda>j. both_reached (y_sock w) (z_sock w) (5 + j)"]
      rounds_le [of 20 "\<lambda>j. both_reached (y_sock w) (z_sock w) (5 + j)"]
    by (simp_all add: m_def)
  have n: "1 \<le> n" "n \<le> 20"
    using rounds_pos [of 20 "\<lambda>j. both_reached (y_sock w) (z_sock w) (8 + m + j)"]
      rounds_le [of 20 "\<lambda>j. both_reached (y_sock w) (z_sock w) (8 + m + j)"]
    by (simp_all add: n_def)
  have m_early: "both_reached (y_sock w) (z_sock w) (5 + (m - 1))" if "m < 20"
    using rounds_left_early [of 20 "\<lambda>j. both_reached (y_sock w) (z_sock w) (5 + j)"] that
    by (simp add: m_def)
  have n_early: "both_reached (y_sock w) (z_sock w) (8 + m + (n - 1))" if "n < 20"
    using rounds_left_early [of 20 "\<lambda>j. both_reached (y_sock w) (z_sock w) (8 + m + j)"] that
    by (simp add: n_def)
  have cw: "controlword_writes (sent (y_sock (test_both_axes_in_sync w)))
                 = controlword_writes (sent (y_sock w)) @ [0x001F, 0x000F, 0x001F, 0x000F]"
    "controlword_writes (sent (z_sock (test_both_axes_in_sync w)))
                 = controlword_writes (sent (z_sock w)) @ [0x001F, 0x000F, 0x001F, 0x000F]"
    by (simp_all add: run controlword_writes_sync_traffic)
  from run order m n m_early n_early cw show ?thesis
    unfolding Let_def m_def [symmetric] n_def [symmetric] by blast
qed

theorem sync_movement_traffic_witness:
  "test_both_axes_in_sync reached_axes = exchanges_both reached_axes (sync_traffic 1 1)
   \<and> take 11 (sent_order (test_both_axes_in_sync reached_axes)) =
       [(Y_axis, object_write_packet 0x6060 0 1 1), (Z_axis, object_write_packet 0x6060 0 1 1),
        (Y_axis, object_write_packet 0x607A 0 1000 4),
        (Z_axis, object_write_packet 0x607A 0 1000 4),
        (Y_axis, object_write_packet 0x6081 0 1000 4),
        (Z_axis, object_write_packet 0x6081 0 1000 4),
        (Y_axis, object_write_packet 0x6083 0 2000 4),
        (Z_axis, object_write_packet 0x6083 0 2000 4),
        (Y_axis, controlword_packet 0x001F), (Z_axis, controlword_packet 0x001F),
        (Y_axis, statusword_request)]
   \<and> test_both_axes_in_sync fault_axes = exchanges_both fault_axes (sync_traffic 20 20)"
proof -
  have a: "rounds 20 (\<lambda>j. True) = 1" by (simp add: eval_nat_numeral)
  have b: "rounds 20 (\<lambda>j. False) = 20" by (rule rounds_never) simp
  have ok: "sends_succeed (y_sock reached_axes)" "sends_succeed (z_sock reached_axes)"
    "sends_succeed (y_sock fault_axes)" "sends_succeed (z_sock fault_axes)"
    by (simp_all add: reached_axes_def fault_axes_def sends_succeed_peers)
  have r: "both_reached (y_sock reached_axes) (z_sock reached_axes) k = True"
    "both_reached (y_sock fault_axes) (z_sock fault_axes) k = False" for k
    by (simp_all add: reached_axes_def fault_axes_def both_reached_reached_peer
        both_reached_fault_peer)
  have e: "sent_order reached_axes = []" by (simp add: reached_axes_def)
  note A = sync_movement_traffic [OF ok(1,2), unfolded Let_def r a e]
  note B = sync_movement_traffic [OF ok(3,4), unfolded Let_def r b]
  from A have 1: "test_both_axes_in_sync reached_axes
      = exchanges_both reached_axes (sync_traffic 1 1)"
    by blast
  from A have "sent_order (test_both_axes_in_sync reached_axes) =
                 []
                 @ [(Y_axis, object_write_packet 0x6060 0 1 1),
                    (Z_axis, object_write_packet 0x6060 0 1 1),
                    (Y_axis, object_write_packet 0x607A 0 1000 4),
                    (Z_axis, object_write_packet 0x607A 0 1000 4),
                    (Y_axis, object_write_packet 0x6081 0 1000 4),
                    (Z_axis, object_write_packet 0x6081 0 1000 4),
                    (Y_axis, object_write_packet 0x6083 0 2000 4),
                    (Z_axis, object_write_packet 0x6083 0 2000 4),
                    (Y_axis, controlword_packet 0x001F), (Z_axis, controlword_packet 0x001F)]
                 @ concat (replicate 1 [(Y_axis, statusword_request),
                                        (Z_axis, statusword_request)])
                 @ [(Y_axis, controlword_packet 0x000F), (Z_axis, controlword_packet 0x000F),
                    (Y_axis, object_write_packet 0x607A 0 0 4),
                    (Z_axis, object_write_packet 0x607A 0 0 4),
                    (Y_axis, controlword_packet 0x001F), (Z_axis, controlword_packet 0x001F)]
                 @ concat (replicate 1 [(Y_axis, statusword_request),
                                        (Z_axis, statusword_request)])
                 @ [(Y_axis, controlword_packet 0x000F), (Z_axis, controlword_packet 0x000F)]"
    by blast
  then have 2: "take 11 (sent_order (test_both_axes_in_sync reached_axes)) =
       [(Y_axis, object_write_packet 0x6060 0 1 1), (Z_axis, object_write_packet 0x6060 0 1 1),
        (Y_axis, object_write_packet 0x607A 0 1000 4),
        (Z_axis, object_write_packet 0x607A 0 1000 4),
        (Y_axis, object_write_packet 0x6081 0 1000 4),
        (Z_axis, object_write_packet 0x6081 0 1000 4),
        (Y_axis, object_write_packet 0x6083 0 2000 4),
        (Z_axis, object_write_packet 0x6083 0 2000 4),
        (Y_axis, controlword_packet 0x001F), (Z_axis, controlword_packet 0x001F),
        (Y_axis, statusword_request)]"
    by simp
  from B have 3: "test_both_axes_in_sync fault_axes
      = exchanges_both fault_axes (sync_traffic 20 20)"
    by blast
  from 1 2 3 show ?thesis by blast
qed

text \<open>
  Claim C8 as stated fails. With the Z axis reporting Fault (\<open>0x0008\<close>) in every
  statusword while the Y axis reports target reached, \<open>test_both_axes_in_sync\<close> polls all
  20 rounds, clears the start bit and then, after the fault, starts the return movement on
  both axes with \<open>0x001F\<close>, polls 20 rounds again and returns: 49 exchanges on each socket,
  the fault aborting nothing, and a return without the Z axis ever reporting target
  reached.
\<close>

theorem sync_movement_fault_counterexample:
  "controlword_writes (sent (y_sock (test_both_axes_in_sync fault_axes)))
     = [0x001F, 0x000F, 0x001F, 0x000F]
   \<and> controlword_writes (sent (z_sock (test_both_axes_in_sync fault_axes)))
     = [0x001F, 0x000F, 0x001F, 0x000F]
   \<and> calls (y_sock (test_both_axes_in_sync fault_axes)) = 49
   \<and> calls (z_sock (test_both_axes_in_sync fault_axes)) = 49"
proof -
  have b: "rounds 20 (\<lambda>j. False) = 20" by (rule rounds_never) simp
  have ok: "sends_succeed (y_sock fault_axes)" "sends_succeed (z_sock fault_axes)"
    by (simp_all add: fault_axes_def sends_succeed_peers)
  have r: "both_reached (y_sock fault_axes) (z_sock fault_axes) k = False" for k
    by (simp add: fault_axes_def both_reached_fault_peer)
  have run: "test_both_axes_in_sync fault_axes = exchanges_both fault_axes (sync_traffic 20 20)"
    by (simp add: test_both_axes_in_sync_traffic [OF ok] Let_def r b)
  have c: "calls (y_sock fault_axes) = 0" "calls (z_sock fault_axes) = 0"
    "sent (y_sock fault_axes) = []" "sent (z_sock fault_axes) = []"
    by (simp_all add: fault_axes_def reached_peer_def fault_peer_def mock_def)
  have d: "length (sync_traffic 20 20) = 49" by (simp add: sync_traffic_def)
  have e: "controlword_writes (sync_traffic 20 20) = [0x001F, 0x000F, 0x001F, 0x000F]"
    using controlword_writes_sync_traffic [of "[]" 20 20] by (simp add: controlword_writes_def)
  show ?thesis by (simp add: run c d e)
qed

section \<open>Bounded and unbounded waits\<close>

lemma transact_script: "script (snd (transact s p)) = script s"
  by (simp add: transact_def split: exchange.splits)

lemma sendCommand_script: "script (snd (sendCommand s p)) = script s"
  by (simp add: sendCommand_def transact_def split: exchange.splits)

lemma never_delivers_sendCommand:
  assumes "never_delivers patterns s"
  shows "\<exists>r s'. sendCommand s request = (Inr r, s') \<and> r \<notin> set patterns
           \<and> never_delivers patterns s'"
proof -
  from assms have "case script s (calls s) of Recv r \<Rightarrow> map uint r \<notin> set patterns | _ \<Rightarrow> False"
    unfolding never_delivers_def by (rule spec)
  then obtain r where r: "script s (calls s) = Recv r" "map uint r \<notin> set patterns"
    by (cases "script s (calls s)") simp_all
  have "never_delivers patterns (snd (sendCommand s request))"
    using assms by (simp add: never_delivers_def sendCommand_script)
  with r show ?thesis
    by (simp add: sendCommand_def transact_def)
qed

lemma never_delivers_all_differ:
  assumes "never_delivers patterns s" "set ps \<subseteq> set patterns"
  shows "\<exists>s'. all_differ ps request s = (Inr True, s') \<and> never_delivers patterns s'"
  using assms
proof (induction ps arbitrary: s)
  case Nil
  then show ?case by simp
next
  case (Cons p ps)
  from never_delivers_sendCommand [OF Cons.prems(1), of request]
  obtain r s1 where s1: "sendCommand s request = (Inr r, s1)" "r \<notin> set patterns"
    "never_delivers patterns s1" by blast
  from Cons.prems(2) s1(2) have "r \<noteq> p" by auto
  moreover from Cons.IH [OF s1(3)] Cons.prems(2)
  obtain s' where "all_differ ps request s1 = (Inr True, s')" "never_delivers patterns s'"
    by auto
  ultimately show ?case using s1(1) by simp
qed

lemma set_shdn_wait_diverges:
  assumes returns: "set_shdn_wait status s = Some y"
  shows "\<not> never_delivers shdn_patterns s"
proof (rule set_shdn_wait.raw_induct
    [where P = "\<lambda>status s y. \<not> never_delivers shdn_patterns s", OF _ returns])
  fix wait :: "byte list \<Rightarrow> sock \<Rightarrow> ((py_exception + unit) \<times> sock) option"
    and status :: "byte list" and s :: sock and y :: "(py_exception + unit) \<times> sock"
  assume IH: "\<And>a b y. wait a b = Some y \<Longrightarrow> \<not> never_delivers shdn_patterns b"
  assume step: "(case all_differ shdn_patterns status s of
        (Inl e, s') \<Rightarrow> Some (Inl e, s')
      | (Inr condition, s') \<Rightarrow>
          (if condition then wait status s' else Some (Inr (), s'))) = Some y"
  show "\<not> never_delivers shdn_patterns s"
  proof
    assume nd: "never_delivers shdn_patterns s"
    from never_delivers_all_differ [OF nd subset_refl, of status]
    obtain s' where s': "all_differ shdn_patterns status s = (Inr True, s')"
      "never_delivers shdn_patterns s'" by blast
    with step have w: "wait status s' = Some y" by simp
    have "\<not> never_delivers shdn_patterns s'" by (rule IH [OF w])
    with s'(2) show False by simp
  qed
qed

lemma set_shdn_diverges:
  assumes "never_delivers shdn_patterns s"
  shows "set_shdn reset shutdown status s = None"
proof -
  from never_delivers_sendCommand [OF assms, of reset]
  obtain r1 s1 where s1: "sendCommand s reset = (Inr r1, s1)" "never_delivers shdn_patterns s1"
    by blast
  from never_delivers_sendCommand [OF s1(2), of shutdown]
  obtain r2 s2 where s2: "sendCommand s1 shutdown = (Inr r2, s2)" "never_delivers shdn_patterns s2"
    by blast
  have "set_shdn_wait status s2 = None"
    using set_shdn_wait_diverges [of status s2] s2(2) by (cases "set_shdn_wait status s2") auto
  then show ?thesis
    by (simp add: set_shdn_def s1(1) s2(1))
qed

lemma never_delivers_disabled_peer: "never_delivers shdn_patterns disabled_peer"
  by (simp add: never_delivers_def disabled_peer_def mock_def feed_def statusword_response_def
      shdn_patterns_def)


lemma reached_at_exchanges [simp]:
  "reached_at (exchanges s ps) = (\<lambda>j. reached_at s (length ps + j))"
  by (rule ext) (simp add: reached_at_def)

lemma wait_target_reached_exchanges:
  assumes "sends_succeed s"
  shows "wait_target_reached n s
           = exchanges s (replicate (rounds n (reached_at s)) statusword_request)"
  using assms
proof (induction n arbitrary: s)
  case 0
  then show ?case by simp
next
  case (Suc n)
  have s1: "sends_succeed (exchanges s [statusword_request])"
    using Suc.prems by simp
  show ?case
    using Suc.IH [OF s1]
    by (simp add: read_statusword_diag_exchanges [OF Suc.prems] reached_at_def)
qed

lemma test_simple_movement_ut2_traffic:
  assumes s: "sends_succeed s"
  shows "test_simple_movement_ut2 s =
     (let m = rounds 10 (\<lambda>j. reached_at s (5 + j));
          n = rounds 10 (\<lambda>j. reached_at s (8 + m + j))
      in exchanges s (simple_traffic m n))"
proof -
  have five: "\<And>j. Suc (Suc (Suc (Suc (Suc j)))) = j + 5"
    and eight: "\<And>j k. Suc (Suc (Suc (Suc (Suc (Suc (Suc (Suc (j + k)))))))) = j + 8 + k"
    by simp_all
  show ?thesis
    using s
    by (simp add: test_simple_movement_ut2_def case_prod_unfold Let_def simple_traffic_def
        write_object_diag_exchanges write_controlword_diag_exchanges
        wait_target_reached_exchanges five eight add.assoc)
qed

lemma read_statusword_diag_calls: "calls (snd (read_statusword_diag s)) = Suc (calls s)"
  by (simp add: read_statusword_diag_def statusword_request_bytearray transact_def
      split: exchange.splits)

lemma write_controlword_diag_calls: "calls (snd (write_controlword_diag s val)) = Suc (calls s)"
  by (simp add: write_controlword_diag_def controlword_packet_bytearray transact_def
      split: exchange.splits)

lemma write_object_diag_calls:
  "calls (snd (write_object_diag s index sub_index val sz)) \<le> Suc (calls s)"
  by (simp add: write_object_diag_def transact_def split: option.splits exchange.splits)

lemma wait_target_reached_calls: "calls (wait_target_reached n s) \<le> calls s + n"
proof (induction n arbitrary: s)
  case 0
  then show ?case by simp
next
  case (Suc n)
  from Suc.IH [of "snd (read_statusword_diag s)"] read_statusword_diag_calls [of s]
  show ?case by (simp add: case_prod_unfold Let_def)
qed

lemma test_simple_movement_ut2_calls: "calls (test_simple_movement_ut2 s) \<le> calls s + 29"
proof -
  define s1 where "s1 = snd (write_object_diag s 0x6060 0 1 1)"
  define s2 where "s2 = snd (write_object_diag s1 0x607A 0 100000 4)"
  define s3 where "s3 = snd (write_object_diag s2 0x6081 0 1000 4)"
  define s4 where "s4 = snd (write_object_diag s3 0x6083 0 2000 4)"
  define s5 where "s5 = snd (write_controlword_diag s4 0x001F)"
  define s6 where "s6 = wait_target_reached 10 s5"
  define s7 where "s7 = snd (write_controlword_diag s6 0x000F)"
  define s8 where "s8 = snd (write_object_diag s7 0x607A 0 0 4)"
  define s9 where "s9 = snd (write_controlword_diag s8 0x001F)"
  define s10 where "s10 = wait_target_reached 10 s9"
  define s11 where "s11 = snd (write_controlword_diag s10 0x000F)"
  have run: "test_simple_movement_ut2 s = s11"
    by (simp add: test_simple_movement_ut2_def case_prod_unfold Let_def s1_def s2_def s3_def
        s4_def s5_def s6_def s7_def s8_def s9_def s10_def s11_def)
  have "calls s1 \<le> calls s + 1" unfolding s1_def using write_object_diag_calls [of s] by simp
  moreover have "calls s2 \<le> calls s1 + 1"
    unfolding s2_def using write_object_diag_calls [of s1] by simp
  moreover have "calls s3 \<le> calls s2 + 1"
    unfolding s3_def using write_object_diag_calls [of s2] by simp
  moreover have "calls s4 \<le> calls s3 + 1"
    unfolding s4_def using write_object_diag_calls [of s3] by simp
  moreover have "calls s5 = calls s4 + 1"
    unfolding s5_def by (simp add: write_controlword_diag_calls)
  moreover have "calls s6 \<le> calls s5 + 10"
    unfolding s6_def by (rule wait_target_reached_calls)
  moreover have "calls s7 = calls s6 + 1"
    unfolding s7_def by (simp add: write_controlword_diag_calls)
  moreover have "calls s8 \<le> calls s7 + 1"
    unfolding s8_def using write_object_diag_calls [of s7] by simp
  moreover have "calls s9 = calls s8 + 1"
    unfolding s9_def by (simp add: write_controlword_diag_calls)
  moreover have "calls s10 \<le> calls s9 + 10"
    unfolding s10_def by (rule wait_target_reached_calls)
  moreover have "calls s11 = calls s10 + 1"
    unfolding s11_def by (simp add: write_controlword_diag_calls)
  ultimately show ?thesis unfolding run by linarith
qed

lemma controlword_writes_simple_traffic:
  "controlword_writes (xs @ simple_traffic m n)
     = controlword_writes xs @ [0x001F, 0x000F, 0x001F, 0x000F]"
  by (simp add: controlword_writes_def simple_traffic_def is_controlword_write_def
      object_write_packet_def controlword_packet_def value_bytes_def)

lemma enabled_peer_facts:
  "sends_succeed enabled_peer" "reached_at enabled_peer k = False"
  "calls enabled_peer = 0" "sent enabled_peer = []"
  by (simp_all add: sends_succeed_def reached_at_def target_reached_def enabled_peer_def
      peer_defs)

lemma test_simple_movement_ut2_enabled_peer:
  "test_simple_movement_ut2 enabled_peer = exchanges enabled_peer (simple_traffic 10 10)"
proof -
  have "rounds 10 (\<lambda>j. False) = 10" by (rule rounds_never) simp
  then show ?thesis
    by (simp add: test_simple_movement_ut2_traffic [OF enabled_peer_facts(1)] Let_def
        enabled_peer_facts(2))
qed

text \<open>
  Claim C9, as amended. The completion waits of \<open>test_simple_movement\<close> of
  \<open>unit_test2.py\<close> are bounded by an explicit count of 10 polls each: against any peer the
  function ends after at most 29 exchanges. When the polls are used up no time-out error
  is raised or returned; the function goes on with its next write. The state waits of
  \<open>archive/main.py\<close> have no bound: against a peer that never delivers an awaited
  statusword, \<open>set_shdn\<close> does not return.
\<close>

theorem polling_bounds:
  "calls (test_simple_movement_ut2 s) \<le> calls s + 29
   \<and> (sends_succeed s \<longrightarrow>
        (let m = rounds 10 (\<lambda>j. reached_at s (5 + j));
             n = rounds 10 (\<lambda>j. reached_at s (8 + m + j))
         in test_simple_movement_ut2 s = exchanges s (simple_traffic m n)
            \<and> 1 \<le> m \<and> m \<le> 10 \<and> 1 \<le> n \<and> n \<le> 10))
   \<and> (never_delivers shdn_patterns s \<longrightarrow> set_shdn reset shutdown status s = None)"
proof -
  have traffic: "(let m = rounds 10 (\<lambda>j. reached_at s (5 + j));
             n = rounds 10 (\<lambda>j. reached_at s (8 + m + j))
         in test_simple_movement_ut2 s = exchanges s (simple_traffic m n)
            \<and> 1 \<le> m \<and> m \<le> 10 \<and> 1 \<le> n \<and> n \<le> 10)" if "sends_succeed s"
    using test_simple_movement_ut2_traffic [OF that]
      rounds_pos [of 10 "\<lambda>j. reached_at s (5 + j)"] rounds_le [of 10 "\<lambda>j. reached_at s (5 + j)"]
      rounds_pos [of 10 "\<lambda>j. reached_at s (8 + rounds 10 (\<lambda>j. reached_at s (5 + j)) + j)"]
      rounds_le [of 10 "\<lambda>j. reached_at s (8 + rounds 10 (\<lambda>j. reached_at s (5 + j)) + j)"]
    by (simp add: Let_def Suc_le_eq)
  from test_simple_movement_ut2_calls traffic set_shdn_diverges show ?thesis by blast
qed

theorem polling_bounds_witness:
  "calls (test_simple_movement_ut2 enabled_peer) \<le> calls enabled_peer + 29
   \<and> test_simple_movement_ut2 enabled_peer = exchanges enabled_peer (simple_traffic 10 10)
   \<and> set_shdn reset_array shutdown_array status_array disabled_peer = None"
proof -
  have r: "rounds 10 (\<lambda>j. False) = 10" by (rule rounds_never) simp
  note a = polling_bounds [of enabled_peer reset_array shutdown_array status_array]
  note b = polling_bounds [of disabled_peer reset_array shutdown_array status_array]
  have 1: "calls (test_simple_movement_ut2 enabled_peer) \<le> calls enabled_peer + 29"
    using a by blast
  have 2: "test_simple_movement_ut2 enabled_peer = exchanges enabled_peer (simple_traffic 10 10)"
    using a by (simp add: Let_def enabled_peer_facts r)
  have 3: "set_shdn reset_array shutdown_array status_array disabled_peer = None"
    using b never_delivers_disabled_peer by blast
  from 1 2 3 show ?thesis by (intro conjI)
qed

text \<open>
  Claim C9 as stated fails. Against a peer whose statusword stays \<open>0x0040\<close>, \<open>set_shdn\<close>
  of \<open>archive/main.py\<close> polls for ever. And against a peer that never reports target
  reached, \<open>test_simple_movement\<close> of \<open>unit_test2.py\<close> ends after its 29 exchanges without
  any time-out error: after the ten polls of its first wait it clears the start bit and
  starts the return movement.
\<close>

theorem polling_counterexample:
  "set_shdn reset_array shutdown_array status_array disabled_peer = None
   \<and> calls (test_simple_movement_ut2 enabled_peer) = 29
   \<and> controlword_writes (sent (test_simple_movement_ut2 enabled_peer))
       = [0x001F, 0x000F, 0x001F, 0x000F]"
proof -
  have "length (simple_traffic 10 10) = 29" by (simp add: simple_traffic_def)
  moreover have "controlword_writes (simple_traffic 10 10) = [0x001F, 0x000F, 0x001F, 0x000F]"
    using controlword_writes_simple_traffic [of "[]" 10 10] by (simp add: controlword_writes_def)
  ultimately show ?thesis
    by (simp add: set_shdn_diverges [OF never_delivers_disabled_peer]
        test_simple_movement_ut2_enabled_peer enabled_peer_facts)
qed

section \<open>The start bit\<close>

lemma acknowledged_exchanged [simp]:
  "acknowledged (exchanged s p) k = acknowledged s (Suc k)"
  "unacknowledged (exchanged s p) k = unacknowledged s (Suc k)"
  by (simp_all add: acknowledged_def unacknowledged_def)


















lemma set_mode_raises: "set_mode mode s = Some (Inl NameError, s)"
  by (simp add: set_mode_def name_c_def)

text \<open>
  \<open>homing\<close> of \<open>archive/main.py\<close> has no start-bit sequence as the file stands. Its
  first telegram resets the start bit; when that exchange returns, \<open>set_mode(6)\<close> raises
  \<open>NameError\<close> and \<open>homing\<close> is left before it has sent anything else, the start
  controlword \<open>0x001F\<close> included.
\<close>

lemma homing_raises_NameError:
  "homing enable_operation status dinputs s =
     (case script s (calls s) of
        Recv response \<Rightarrow> Some (Inl NameError, exchanged s enable_operation)
      | RecvRaises \<Rightarrow> Some (Inl OSError, exchanged s enable_operation)
      | SendRaises \<Rightarrow> Some (Inl OSError, s\<lparr>calls := Suc (calls s)\<rparr>))"
  by (simp add: homing_def set_mode_raises sendCommand_def transact_def exchanged_def
      split: exchange.splits)






end
